theory Spec2Isabelle
  imports Complex_Main "HOL-Library.List_Lexorder" "HOL-Library.Char_ord"
begin

section \<open>Measurement comparison and visualisation preparation engine\<close>

text \<open>
  A shallow embedding of the graph generation code of the application:
  \<^item> \<^verbatim>\<open>graph_utils.py\<close>: \<^verbatim>\<open>detect_outliers\<close>, \<^verbatim>\<open>get_grouped_data\<close>;
  \<^item> \<^verbatim>\<open>graph_config.py\<close>: \<^verbatim>\<open>GraphConfig.__post_init__\<close>;
  \<^item> \<^verbatim>\<open>graph_generator.py\<close>: \<^verbatim>\<open>prepare_data\<close>, the three extractors,
    \<^verbatim>\<open>plot_data\<close>, \<^verbatim>\<open>apply_styling\<close>, \<^verbatim>\<open>setup_interactivity\<close>,
    \<^verbatim>\<open>_delete_point\<close>, \<^verbatim>\<open>reset_deletions\<close>;
  \<^item> \<^verbatim>\<open>graph_page.py\<close>: \<^verbatim>\<open>_create_plot\<close>, \<^verbatim>\<open>_pair_by_test_fixture\<close>,
    \<^verbatim>\<open>_pair_by_batch\<close>.

  Python floats are modelled by exact reals; a float that is NaN (the code's marker of
  a missing value) is \<open>None\<close> in a \<open>real option\<close>. Python exceptions are values of
  the type \<open>error\<close>.
\<close>

subsection \<open>Exceptions\<close>

text \<open>
  Every \<^verbatim>\<open>ValueError\<close> of the code carries a message; the model keeps which check
  raised it:
  \<^item> \<open>NoMeasurements\<close>: "No measurements provided" (\<^verbatim>\<open>prepare_data\<close>);
  \<^item> \<open>MissingXAxisMeasurement\<close>: "Comparison mode requires x_axis_measurement to be specified";
  \<^item> \<open>YAxisMismatch\<close>: "SAME_MEASUREMENT mode requires y_axis_measurement to match x_axis_measurement ...";
  \<^item> \<open>MissingYAxisMeasurement\<close>: "DIFFERENT_MEASUREMENTS mode requires both ...";
  \<^item> \<open>MissingGroupByField\<close>: "Grouping boxes enabled but no group_by_field specified";
  \<^item> \<open>BadPairingDevice\<close>, \<open>BadPairingStrategy\<close>, \<open>BadLegendPosition\<close>,
    \<open>BadLegendOpacity\<close>: the four range checks at the end of \<^verbatim>\<open>__post_init__\<close>;
  \<^item> \<open>NotAFloat\<close>: "could not convert string to float", raised by \<^verbatim>\<open>float(value)\<close> on
    a string that is no number;
  \<^item> \<open>RangeNotFinite\<close>: "autodetected range of [nan, nan] is not finite", raised by
    \<^verbatim>\<open>np.histogram\<close>.
\<close>

datatype value_error =
    NoMeasurements
  | MissingXAxisMeasurement
  | YAxisMismatch
  | MissingYAxisMeasurement
  | MissingGroupByField
  | BadPairingDevice
  | BadPairingStrategy
  | BadLegendPosition
  | BadLegendOpacity
  | NotAFloat
  | RangeNotFinite

datatype error = ValueError value_error | IndexError | TypeError | KeyError | ZeroDivisionError

text \<open>Python truthiness of an \<^verbatim>\<open>Optional[str]\<close>: \<^verbatim>\<open>None\<close> and \<^verbatim>\<open>""\<close> are falsy.\<close>

definition truthy :: "string option \<Rightarrow> bool" where
  "truthy s = (case s of None \<Rightarrow> False | Some t \<Rightarrow> t \<noteq> [])"

subsection \<open>Outlier detection (\<^verbatim>\<open>graph_utils.detect_outliers\<close>)\<close>

text \<open>\<^verbatim>\<open>arr[valid_mask]\<close>: the entries that are not NaN, in order.\<close>

definition valid_values :: "real option list \<Rightarrow> real list" where
  "valid_values vs = List.map_filter (\<lambda>v. v) vs"

text \<open>\<^verbatim>\<open>np.mean\<close>, and \<^verbatim>\<open>np.std\<close> with its default \<^verbatim>\<open>ddof=0\<close> (the population
  standard deviation, the square root of the mean squared deviation).\<close>

definition np_mean :: "real list \<Rightarrow> real" where
  "np_mean xs = sum_list xs / real (length xs)"

definition np_var :: "real list \<Rightarrow> real" where
  "np_var xs = sum_list (map (\<lambda>x. (x - np_mean xs)\<^sup>2) xs) / real (length xs)"

definition np_std :: "real list \<Rightarrow> real" where
  "np_std xs = sqrt (np_var xs)"

text \<open>
  \<^verbatim>\<open>detect_outliers(values, n_std=3.0)\<close>. The comparison of a NaN z-score is false in
  numpy, and the code resets the masked positions to false as well: \<open>None\<close> gives
  \<open>False\<close>. The mean, the deviation and the z-scores are computed here without the
  rounding of doubles: the model has the shape of the result (its length, the positions
  that are never flagged), not the flag of a value whose z-score is within rounding of
  the threshold.
\<close>

definition detect_outliers :: "real option list \<Rightarrow> real \<Rightarrow> bool list" where
  "detect_outliers vs n_std =
     (if length vs < 3 then replicate (length vs) False
      else let valid = valid_values vs in
        if length valid < 3 then replicate (length vs) False
        else let mean = np_mean valid; std = np_std valid in
          if std = 0 then replicate (length vs) False
          else map (\<lambda>v. case v of None \<Rightarrow> False
                              | Some x \<Rightarrow> n_std < \<bar>(x - mean) / std\<bar>) vs)"

text \<open>The default argument \<^verbatim>\<open>n_std=3.0\<close>; every caller in the code uses it.\<close>

definition default_n_std :: real where
  "default_n_std = 3"

subsection \<open>Measurement records\<close>

text \<open>
  \<^verbatim>\<open>Database_Full_Measurement_Result_Object\<close> with the attributes the engine reads.
  The parent objects \<^verbatim>\<open>sub_test\<close> and \<^verbatim>\<open>test_log\<close> are always present and are
  flattened; the boards \<^verbatim>\<open>pia\<close> (\<^verbatim>\<open>test_log.pia_board\<close>) and \<^verbatim>\<open>pmt\<close>
  (\<^verbatim>\<open>test_log.pmt_device\<close>) may be \<^verbatim>\<open>None\<close>.

  The code reads three attributes through a dotted path held in the configuration
  (\<^verbatim>\<open>getattr\<close> along the path, \<^verbatim>\<open>None\<close> as soon as one step is \<^verbatim>\<open>None\<close>). The
  configuration is fixed for a generator, so the record holds what each path resolves to:
  \<^item> \<open>x_value\<close>: the value at \<^verbatim>\<open>x_axis_field\<close> as \<^verbatim>\<open>_get_x_value\<close> finds it:
    \<^verbatim>\<open>None\<close> (a step of the path is \<^verbatim>\<open>None\<close>), a datetime (given by its timestamp), a
    value that \<^verbatim>\<open>float(value)\<close> converts (given by the float), or a value on which
    \<^verbatim>\<open>float(value)\<close> raises (given by the exception: \<^verbatim>\<open>ValueError\<close> for a string
    that is no number, \<^verbatim>\<open>TypeError\<close> for an object that has no conversion);
  \<^item> \<open>x_field_value\<close>: the value at \<^verbatim>\<open>x_axis_field\<close> as \<^verbatim>\<open>_get_field_value\<close>
    returns it, here a string, compared as Python compares strings;
  \<^item> \<open>group_value\<close>: \<^verbatim>\<open>str(value)\<close> of the value at \<^verbatim>\<open>group_by_field\<close>, \<open>None\<close>
    when the path ends in \<^verbatim>\<open>None\<close>.
\<close>

datatype field_value = FieldNone | FieldDatetime real | FieldNumber real | FieldOther error

record pia_board =
  serial_number :: "string option"
  part_number :: "string option"

record pmt_device =
  pmt_serial_number :: "string option"
  batch_number :: "string option"

record measurement_data =
  spec_id :: nat
  name :: string
  measurement :: "real option"
  nominal :: "real option"
  has_plot :: bool
  plot_data :: "(real \<times> real) list option"
  pia :: "pia_board option"
  pmt :: "pmt_device option"
  test_fixture :: "string option"
  test_id :: nat
  x_value :: field_value
  x_field_value :: "string option"
  group_value :: "string option"
  upper_limit :: "real option"
  lower_limit :: "real option"

subsection \<open>Configuration (\<^verbatim>\<open>graph_config.GraphConfig\<close>)\<close>

datatype GraphType = SCATTER | LINE | HISTOGRAM

datatype ComparisonMode = NONE | SAME_MEASUREMENT | DIFFERENT_MEASUREMENTS

record GraphConfig =
  measurements :: "measurement_data list"
  graph_type :: GraphType
  legend_position :: string
  legend_bg_opacity :: int
  enable_grouping_boxes :: bool
  group_by_field :: "string option"
  comparison_mode :: ComparisonMode
  x_axis_measurement :: "string option"
  y_axis_measurement :: "string option"
  x_axis_use_indices :: bool
  pairing_device :: string
  pairing_strategy :: string
  auto_overlay_plots :: bool
  remove_outliers :: bool
  show_spec_lines :: bool
  show_comparison_line :: bool
  enable_tooltips :: bool
  enable_crosshair :: bool
  enable_size_scaling :: bool

text \<open>
  The first block of \<^verbatim>\<open>__post_init__\<close>: the checks of comparison mode. In
  \<^verbatim>\<open>SAME_MEASUREMENT\<close> mode the field \<^verbatim>\<open>y_axis_measurement\<close> is overwritten.
\<close>

definition check_comparison :: "GraphConfig \<Rightarrow> error + GraphConfig" where
  "check_comparison c =
     (if comparison_mode c \<noteq> NONE then
        if \<not> truthy (x_axis_measurement c) then Inl (ValueError MissingXAxisMeasurement)
        else if comparison_mode c = SAME_MEASUREMENT then
          if truthy (y_axis_measurement c) \<and> y_axis_measurement c \<noteq> x_axis_measurement c
          then Inl (ValueError YAxisMismatch)
          else Inr (c\<lparr>y_axis_measurement := x_axis_measurement c\<rparr>)
        else if comparison_mode c = DIFFERENT_MEASUREMENTS then
          if \<not> truthy (y_axis_measurement c) then Inl (ValueError MissingYAxisMeasurement)
          else Inr c
        else Inr c
      else Inr c)"

text \<open>The remaining checks of \<^verbatim>\<open>__post_init__\<close>, in the order of the code.\<close>

definition check_options :: "GraphConfig \<Rightarrow> error + GraphConfig" where
  "check_options c =
     (if enable_grouping_boxes c \<and> \<not> truthy (group_by_field c)
        then Inl (ValueError MissingGroupByField)
      else if pairing_device c \<notin> {''pia'', ''pmt''}
        then Inl (ValueError BadPairingDevice)
      else if pairing_strategy c \<notin> {''first'', ''last'', ''best''}
        then Inl (ValueError BadPairingStrategy)
      else if legend_position c \<notin> {''top-left'', ''top-right'', ''bottom-left'', ''bottom-right''}
        then Inl (ValueError BadLegendPosition)
      else if \<not> (0 \<le> legend_bg_opacity c \<and> legend_bg_opacity c \<le> 255)
        then Inl (ValueError BadLegendOpacity)
      else Inr c)"

definition post_init :: "GraphConfig \<Rightarrow> error + GraphConfig" where
  "post_init c = (case check_comparison c of Inl e \<Rightarrow> Inl e | Inr c' \<Rightarrow> check_options c')"

text \<open>The defaults of the dataclass fields (no measurements).\<close>

definition default_config :: GraphConfig where
  "default_config =
     \<lparr>measurements = [], graph_type = SCATTER, legend_position = ''top-right'',
      legend_bg_opacity = 235, enable_grouping_boxes = False, group_by_field = None,
      comparison_mode = NONE, x_axis_measurement = None, y_axis_measurement = None,
      x_axis_use_indices = True, pairing_device = ''pia'', pairing_strategy = ''last'',
      auto_overlay_plots = True, remove_outliers = False, show_spec_lines = True,
      show_comparison_line = True, enable_tooltips = True, enable_crosshair = True,
      enable_size_scaling = True\<rparr>"

subsection \<open>Dictionaries\<close>

text \<open>
  A Python \<^verbatim>\<open>dict\<close> keeps its keys in insertion order, and the code iterates over
  its dictionaries: a dictionary is an association list with distinct keys, in
  insertion order. \<open>dict_set\<close> is \<^verbatim>\<open>d[k] = v\<close> (an existing key keeps its place),
  \<open>dict_append\<close> is \<^verbatim>\<open>d[k].append(v)\<close> on a dictionary of lists whose missing keys
  start as the empty list (\<^verbatim>\<open>defaultdict(list)\<close>, or the explicit
  \<^verbatim>\<open>if k not in d: d[k] = []\<close>).
\<close>

fun dict_set :: "('k \<times> 'v) list \<Rightarrow> 'k \<Rightarrow> 'v \<Rightarrow> ('k \<times> 'v) list" where
  "dict_set [] k v = [(k, v)]"
| "dict_set ((k', v') # d) k v =
     (if k' = k then (k, v) # d else (k', v') # dict_set d k v)"

fun dict_append :: "('k \<times> 'v list) list \<Rightarrow> 'k \<Rightarrow> 'v \<Rightarrow> ('k \<times> 'v list) list" where
  "dict_append [] k v = [(k, [v])]"
| "dict_append ((k', vs) # d) k v =
     (if k' = k then (k', vs @ [v]) # d else (k', vs) # dict_append d k v)"

subsection \<open>Grouping (\<^verbatim>\<open>graph_utils.get_grouped_data\<close>)\<close>

definition group_key :: "measurement_data \<Rightarrow> string" where
  "group_key m = (case group_value m of None \<Rightarrow> ''Unknown'' | Some s \<Rightarrow> s)"

definition get_grouped_data :: "measurement_data list \<Rightarrow> (string \<times> measurement_data list) list" where
  "get_grouped_data ms = foldl (\<lambda>groups m. dict_append groups (group_key m) m) [] ms"

subsection \<open>Prepared data\<close>

text \<open>
  An x value is an \<^verbatim>\<open>int\<close> in index-based scatter mode and a \<^verbatim>\<open>float\<close> otherwise.
  The dictionary that an extractor returns is the record \<open>extracted\<close>; the keys
  \<^verbatim>\<open>x_labels\<close> and \<^verbatim>\<open>measurement_pairs\<close> are absent (\<open>None\<close>) in the modes that
  do not produce them.
\<close>

datatype num = PyInt int | PyFloat real

record extracted =
  x_data :: "num list"
  y_data :: "real option list"
  x_labels :: "real list option"
  is_outlier :: "bool list"
  measurement_indices :: "nat list"
  measurement_pairs :: "(measurement_data \<times> measurement_data) list option"

record group_data = extracted +
  group_measurements :: "measurement_data list"
  plot_measurements :: "measurement_data list"
  scalar_measurements :: "measurement_data list"
  has_plots :: bool

text \<open>
  \<^verbatim>\<open>prepared_data\<close>: the groups, and of the metadata the two values computed from the
  data. (The two axis labels of the metadata are strings built from the configuration
  alone and are left out.)
\<close>

record prepared =
  groups :: "(string \<times> group_data) list"
  meta_has_plots :: bool
  total_points :: int

subsection \<open>Standard extraction (\<^verbatim>\<open>_extract_standard_data\<close>)\<close>

text \<open>\<^verbatim>\<open>m.has_plot and m.plot_data\<close>: the plot data is there and is not empty.\<close>

definition is_plot :: "measurement_data \<Rightarrow> bool" where
  "is_plot m = (has_plot m \<and> (case plot_data m of None \<Rightarrow> False | Some ps \<Rightarrow> ps \<noteq> []))"

text \<open>
  \<^verbatim>\<open>_get_x_value\<close>: \<^verbatim>\<open>0.0\<close> when the path ends in \<^verbatim>\<open>None\<close>, the timestamp of a
  datetime, \<^verbatim>\<open>float(value)\<close> otherwise, which may raise.
\<close>

definition get_x_value :: "measurement_data \<Rightarrow> error + real" where
  "get_x_value m =
     (case x_value m of
        FieldNone \<Rightarrow> Inr 0
      | FieldDatetime t \<Rightarrow> Inr t
      | FieldNumber v \<Rightarrow> Inr v
      | FieldOther e \<Rightarrow> Inl e)"

text \<open>
  The loop of \<^verbatim>\<open>_extract_standard_data\<close> over \<^verbatim>\<open>enumerate(measurements)\<close>, with
  its counter \<^verbatim>\<open>current_x\<close>. It appends to four lists in step; a row here is
  (x value, y value, x label, index of the measurement). \<^verbatim>\<open>_get_x_value\<close> is called
  for every record that is not skipped, in index mode (for the label) as in the other
  modes (for the x value), and its exception ends the loop.
\<close>

fun standard_rows ::
  "GraphConfig \<Rightarrow> int \<Rightarrow> (nat \<times> measurement_data) list \<Rightarrow>
     error + (num \<times> real option \<times> real \<times> nat) list"
where
  "standard_rows cfg current_x [] = Inr []"
| "standard_rows cfg current_x ((idx, m) # rest) =
     (if is_plot m then standard_rows cfg current_x rest
      else
        (case get_x_value m of
           Inl e \<Rightarrow> Inl e
         | Inr actual_val \<Rightarrow>
             if x_axis_use_indices cfg \<and> graph_type cfg = SCATTER then
               (case standard_rows cfg (current_x + 1) rest of
                  Inl e \<Rightarrow> Inl e
                | Inr rows \<Rightarrow> Inr ((PyInt current_x, measurement m, actual_val, idx) # rows))
             else
               (case standard_rows cfg current_x rest of
                  Inl e \<Rightarrow> Inl e
                | Inr rows \<Rightarrow> Inr ((PyFloat actual_val, measurement m, actual_val, idx) # rows))))"

definition extract_standard_data ::
  "GraphConfig \<Rightarrow> measurement_data list \<Rightarrow> int \<Rightarrow> error + extracted"
where
  "extract_standard_data cfg ms start_x_index =
     (case standard_rows cfg start_x_index (zip [0 ..< length ms] ms) of
        Inl e \<Rightarrow> Inl e
      | Inr rows \<Rightarrow>
          let ys = map (\<lambda>(x, y, l, i). y) rows
          in Inr \<lparr>x_data = map (\<lambda>(x, y, l, i). x) rows,
                  y_data = ys,
                  x_labels = Some (map (\<lambda>(x, y, l, i). l) rows),
                  is_outlier = (if remove_outliers cfg then detect_outliers ys default_n_std
                                else replicate (length ys) False),
                  measurement_indices = map (\<lambda>(x, y, l, i). i) rows,
                  measurement_pairs = None\<rparr>)"

subsection \<open>Same-measurement comparison (\<^verbatim>\<open>_extract_comparison_same\<close>)\<close>

definition get_pairing_key :: "GraphConfig \<Rightarrow> measurement_data \<Rightarrow> string option" where
  "get_pairing_key cfg m =
     (if pairing_device cfg = ''pia'' then
        (case pia m of None \<Rightarrow> None | Some b \<Rightarrow> serial_number b)
      else if pairing_device cfg = ''pmt'' then
        (case pmt m of None \<Rightarrow> None | Some d \<Rightarrow> pmt_serial_number d)
      else None)"

text \<open>
  The loop of strategy \<^verbatim>\<open>'best'\<close>. \<^verbatim>\<open>best_score\<close> starts at infinity (\<open>None\<close>
  here); \<^verbatim>\<open>abs(m.measurement - m.nominal)\<close> raises \<^verbatim>\<open>TypeError\<close> on a missing
  measurement.
\<close>

fun best_loop ::
  "measurement_data list \<Rightarrow> measurement_data option \<Rightarrow> real option \<Rightarrow> error + measurement_data option"
where
  "best_loop [] best best_score = Inr best"
| "best_loop (m # ms) best best_score =
     (case nominal m of
        None \<Rightarrow> best_loop ms best best_score
      | Some nom \<Rightarrow>
          (case measurement m of
             None \<Rightarrow> Inl TypeError
           | Some v \<Rightarrow>
               (if (case best_score of None \<Rightarrow> True | Some b \<Rightarrow> \<bar>v - nom\<bar> < b)
                then best_loop ms (Some m) (Some \<bar>v - nom\<bar>)
                else best_loop ms best best_score)))"

definition apply_pairing_strategy ::
  "GraphConfig \<Rightarrow> measurement_data list \<Rightarrow> error + measurement_data option"
where
  "apply_pairing_strategy cfg ms =
     (if ms = [] then Inr None
      else if pairing_strategy cfg = ''first'' then Inr (Some (hd ms))
      else if pairing_strategy cfg = ''last'' then Inr (Some (last ms))
      else if pairing_strategy cfg = ''best'' then
        (case best_loop ms None None of
           Inl e \<Rightarrow> Inl e
         | Inr None \<Rightarrow> Inr (Some (last ms))
         | Inr (Some b) \<Rightarrow> Inr (Some b))
      else Inr (Some (last ms)))"

text \<open>
  \<^verbatim>\<open>sorted(fixtures_dict.keys())\<close>. The keys are distinct; comparing \<^verbatim>\<open>None\<close> with
  a string raises \<^verbatim>\<open>TypeError\<close>, and sorting two or more keys compares every key
  with another one.
\<close>

definition sorted_keys :: "string option list \<Rightarrow> error + string option list" where
  "sorted_keys ks =
     (if length ks < 2 then Inr ks
      else if None \<in> set ks then Inl TypeError
      else Inr (map Some (sort (List.map_filter (\<lambda>k. k) ks))))"

text \<open>The first loop: the records of the target measurement, per device.\<close>

definition device_measurements ::
  "GraphConfig \<Rightarrow> measurement_data list \<Rightarrow> (string \<times> (string option \<times> measurement_data) list) list"
where
  "device_measurements cfg ms =
     foldl (\<lambda>d m.
        if Some (name m) \<noteq> x_axis_measurement cfg \<or> measurement m = None then d
        else (case get_pairing_key cfg m of
                None \<Rightarrow> d
              | Some key \<Rightarrow> if key = [] then d else dict_append d key (x_field_value m, m)))
       [] ms"

text \<open>The body of the second loop, for one device: no pair, or one.\<close>

definition pair_device ::
  "GraphConfig \<Rightarrow> (string option \<times> measurement_data) list \<Rightarrow>
     error + (measurement_data \<times> measurement_data) option"
where
  "pair_device cfg fixture_measurements =
     (let fixtures_dict = foldl (\<lambda>d (fixture, m). dict_append d fixture m) [] fixture_measurements
      in case sorted_keys (map fst fixtures_dict) of
           Inl e \<Rightarrow> Inl e
         | Inr (x_fixture # y_fixture # _) \<Rightarrow>
             (case (map_of fixtures_dict x_fixture, map_of fixtures_dict y_fixture) of
                (Some xs, Some ys) \<Rightarrow>
                  (case apply_pairing_strategy cfg xs of
                     Inl e \<Rightarrow> Inl e
                   | Inr x_meas \<Rightarrow>
                       (case apply_pairing_strategy cfg ys of
                          Inl e \<Rightarrow> Inl e
                        | Inr y_meas \<Rightarrow>
                            (case (x_meas, y_meas) of
                               (Some xm, Some ym) \<Rightarrow> Inr (Some (xm, ym))
                             | _ \<Rightarrow> Inr None)))
              | _ \<Rightarrow> Inl KeyError)
         | Inr _ \<Rightarrow> Inr None)"

fun pair_devices ::
  "GraphConfig \<Rightarrow> (string \<times> (string option \<times> measurement_data) list) list \<Rightarrow>
     error + (measurement_data \<times> measurement_data) list"
where
  "pair_devices cfg [] = Inr []"
| "pair_devices cfg ((device_key, fms) # rest) =
     (case pair_device cfg fms of
        Inl e \<Rightarrow> Inl e
      | Inr p \<Rightarrow>
          (case pair_devices cfg rest of
             Inl e \<Rightarrow> Inl e
           | Inr ps \<Rightarrow> Inr ((case p of None \<Rightarrow> [] | Some xy \<Rightarrow> [xy]) @ ps)))"

text \<open>\<^verbatim>\<open>float(m.measurement)\<close> of every paired record; \<^verbatim>\<open>TypeError\<close> on \<^verbatim>\<open>None\<close>.\<close>

fun pair_values :: "(measurement_data \<times> measurement_data) list \<Rightarrow> error + (real \<times> real) list" where
  "pair_values [] = Inr []"
| "pair_values ((xm, ym) # ps) =
     (case (measurement xm, measurement ym) of
        (Some x, Some y) \<Rightarrow>
          (case pair_values ps of Inl e \<Rightarrow> Inl e | Inr vs \<Rightarrow> Inr ((x, y) # vs))
      | _ \<Rightarrow> Inl TypeError)"

definition comparison_result ::
  "bool \<Rightarrow> (real \<times> real) list \<Rightarrow> (measurement_data \<times> measurement_data) list \<Rightarrow> extracted"
where
  "comparison_result with_outliers vs ps =
     \<lparr>x_data = map (\<lambda>(x, y). PyFloat x) vs,
      y_data = map (\<lambda>(x, y). Some y) vs,
      x_labels = None,
      is_outlier =
        (if with_outliers
         then map (\<lambda>(x, y). x \<or> y)
                (zip (detect_outliers (map (\<lambda>(x, y). Some x) vs) default_n_std)
                     (detect_outliers (map (\<lambda>(x, y). Some y) vs) default_n_std))
         else replicate (length vs) False),
      measurement_indices = [0 ..< length vs],
      measurement_pairs = Some ps\<rparr>"

definition extract_comparison_same :: "GraphConfig \<Rightarrow> measurement_data list \<Rightarrow> error + extracted" where
  "extract_comparison_same cfg ms =
     (case pair_devices cfg (device_measurements cfg ms) of
        Inl e \<Rightarrow> Inl e
      | Inr ps \<Rightarrow>
          (case pair_values ps of
             Inl e \<Rightarrow> Inl e
           | Inr vs \<Rightarrow> Inr (comparison_result (remove_outliers cfg \<and> vs \<noteq> []) vs ps)))"

subsection \<open>Different-measurements comparison (\<^verbatim>\<open>_extract_comparison_different\<close>)\<close>

definition by_test_id ::
  "string option \<Rightarrow> string option \<Rightarrow> measurement_data list \<Rightarrow>
     (nat \<times> measurement_data \<times> real) list \<times> (nat \<times> measurement_data \<times> real) list"
where
  "by_test_id x_name y_name ms =
     foldl (\<lambda>(xd, yd) m.
        (case measurement m of
           None \<Rightarrow> (xd, yd)
         | Some v \<Rightarrow>
             if Some (name m) = x_name then (dict_set xd (test_id m) (m, v), yd)
             else if Some (name m) = y_name then (xd, dict_set yd (test_id m) (m, v))
             else (xd, yd)))
       ([], []) ms"

definition extract_comparison_different :: "GraphConfig \<Rightarrow> measurement_data list \<Rightarrow> extracted" where
  "extract_comparison_different cfg ms =
     (let (xd, yd) = by_test_id (x_axis_measurement cfg) (y_axis_measurement cfg) ms;
          rows = concat (map (\<lambda>(tid, xm, xv).
                    case map_of yd tid of None \<Rightarrow> [] | Some (ym, yv) \<Rightarrow> [((xv, yv), (xm, ym))]) xd)
      in comparison_result (remove_outliers cfg) (map fst rows) (map snd rows))"

subsection \<open>The pipeline (\<^verbatim>\<open>_prepare_group_data\<close>, \<^verbatim>\<open>prepare_data\<close>)\<close>

definition extract_data :: "GraphConfig \<Rightarrow> measurement_data list \<Rightarrow> int \<Rightarrow> error + extracted" where
  "extract_data cfg ms start_x_index =
     (case comparison_mode cfg of
        NONE \<Rightarrow> extract_standard_data cfg ms start_x_index
      | SAME_MEASUREMENT \<Rightarrow> extract_comparison_same cfg ms
      | DIFFERENT_MEASUREMENTS \<Rightarrow> Inr (extract_comparison_different cfg ms))"

definition prepare_group_data :: "GraphConfig \<Rightarrow> measurement_data list \<Rightarrow> int \<Rightarrow> error + group_data" where
  "prepare_group_data cfg ms start_x_index =
     (let plots = filter (\<lambda>m. is_plot m \<and> auto_overlay_plots cfg) ms;
          scalars = filter (\<lambda>m. \<not> (is_plot m \<and> auto_overlay_plots cfg)) ms
      in case extract_data cfg ms start_x_index of
           Inl e \<Rightarrow> Inl e
         | Inr e \<Rightarrow>
             Inr \<lparr>x_data = x_data e, y_data = y_data e, x_labels = x_labels e,
                  is_outlier = is_outlier e, measurement_indices = measurement_indices e,
                  measurement_pairs = measurement_pairs e,
                  group_measurements = ms, plot_measurements = plots,
                  scalar_measurements = scalars, has_plots = (plots \<noteq> [])\<rparr>)"

text \<open>
  The loop of \<^verbatim>\<open>prepare_data\<close> over \<^verbatim>\<open>groups.items()\<close>; its state is
  (\<^verbatim>\<open>prepared_groups\<close>, \<^verbatim>\<open>has_plots\<close>, \<^verbatim>\<open>total_points\<close>, \<^verbatim>\<open>global_x_index\<close>).
\<close>

fun prepare_loop ::
  "GraphConfig \<Rightarrow> (string \<times> measurement_data list) list \<Rightarrow>
     (string \<times> group_data) list \<times> bool \<times> int \<times> int \<Rightarrow>
     error + (string \<times> group_data) list \<times> bool \<times> int \<times> int"
where
  "prepare_loop cfg [] st = Inr st"
| "prepare_loop cfg ((group_name, gms) # rest)
       (prepared_groups, hp, tp, global_x_index) =
     (case prepare_group_data cfg gms global_x_index of
        Inl e \<Rightarrow> Inl e
      | Inr gd \<Rightarrow>
          prepare_loop cfg rest
            (dict_set prepared_groups group_name gd,
             hp \<or> has_plots gd,
             (if x_data gd \<noteq> [] then tp + int (length (x_data gd)) else tp),
             (if x_data gd \<noteq> [] then global_x_index + int (length (x_data gd)) + 1
              else global_x_index)))"

definition make_groups :: "GraphConfig \<Rightarrow> (string \<times> measurement_data list) list" where
  "make_groups cfg =
     (if comparison_mode cfg \<noteq> NONE then [(''All Data'', measurements cfg)]
      else if truthy (group_by_field cfg) then get_grouped_data (measurements cfg)
      else [(''All Data'', measurements cfg)])"

subsection \<open>The generator (\<^verbatim>\<open>MeasurementGraphGenerator\<close>)\<close>

text \<open>
  The rendered items are objects of the plotting library; the generator refers to them
  by identity (\<^verbatim>\<open>id(item)\<close>). The model keeps the items on the plot widget in a
  store, an association list from identities to items in the order in which they were
  added. Of an item it keeps the class, the coordinate arrays that
  \<^verbatim>\<open>getData()\<close> returns (a list of points, or \<open>None\<close> when the arrays are
  \<^verbatim>\<open>None\<close>), the size option, and the attribute \<^verbatim>\<open>original_sizes\<close> that hovering
  and selecting set (\<open>None\<close> while the item has no such attribute). A size is one
  number or one number per point.
\<close>

datatype item_class = ScatterPlotItem | BarGraphItem | PlotDataItem | InfiniteLine | TextItem

datatype sizes = Scalar real | PerPoint "real list"

record plot_item =
  item_class :: item_class
  points :: "(real \<times> real option) list option"
  size_opt :: sizes
  original_sizes :: "sizes option"

text \<open>
  The state of a generator: the fields of \<^verbatim>\<open>__init__\<close> that preparation, deletion
  and undo read or write, and the store of items. \<^verbatim>\<open>prepared_data\<close> starts as the
  empty dictionary and \<^verbatim>\<open>original_data\<close> as \<^verbatim>\<open>None\<close>: both are \<open>None\<close> here.
  A deleted point id is the string \<^verbatim>\<open>f"{item_id}_{point_idx}"\<close>, here the pair.
  \<open>tooltip_visible\<close> is \<open>None\<close> while there is no tooltip label.
\<close>

record generator =
  config :: GraphConfig
  prepared_data :: "prepared option"
  original_data :: "prepared option"
  deleted_items :: "(nat \<times> int) set"
  point_measurement_map :: "((nat \<times> int) \<times> measurement_data) list"
  selected_item :: "nat option"
  selected_index :: "int option"
  tooltip_visible :: "bool option"
  items :: "(nat \<times> plot_item) list"

definition new_generator :: "GraphConfig \<Rightarrow> generator" where
  "new_generator cfg =
     \<lparr>config = cfg, prepared_data = None, original_data = None, deleted_items = {},
      point_measurement_map = [], selected_item = None, selected_index = None,
      tooltip_visible = None, items = []\<rparr>"

text \<open>
  \<^verbatim>\<open>prepare_data\<close>. The snapshot \<^verbatim>\<open>original_data\<close> is a deep copy of the prepared
  data: an equal value.
\<close>

definition prepare_data :: "generator \<Rightarrow> error + generator" where
  "prepare_data g =
     (if measurements (config g) = [] then Inl (ValueError NoMeasurements)
      else case prepare_loop (config g) (make_groups (config g)) ([], False, 0, 0) of
             Inl e \<Rightarrow> Inl e
           | Inr (prepared_groups, hp, tp, gx) \<Rightarrow>
               Inr (g\<lparr>prepared_data :=
                        Some \<lparr>groups = prepared_groups, meta_has_plots = hp, total_points = tp\<rparr>,
                      original_data :=
                        Some \<lparr>groups = prepared_groups, meta_has_plots = hp, total_points = tp\<rparr>\<rparr>))"

subsection \<open>Deletion (\<^verbatim>\<open>_delete_point\<close>)\<close>

text \<open>
  \<^verbatim>\<open>mask[point_idx] = False\<close> on a numpy array of length \<open>n\<close>: an index from
  \<open>-n\<close> to \<open>n - 1\<close> is accepted (a negative one counts from the end), any other
  raises \<^verbatim>\<open>IndexError\<close> (\<open>None\<close> here).
\<close>

definition mask_index :: "nat \<Rightarrow> int \<Rightarrow> nat option" where
  "mask_index n i =
     (if 0 \<le> i \<and> i < int n then Some (nat i)
      else if - int n \<le> i \<and> i < 0 then Some (nat (i + int n))
      else None)"

text \<open>\<^verbatim>\<open>xs[mask]\<close> for a mask that is false at position \<open>k\<close> only.\<close>

definition drop_nth :: "nat \<Rightarrow> 'a list \<Rightarrow> 'a list" where
  "drop_nth k xs = take k xs @ drop (Suc k) xs"

text \<open>The loop that builds \<^verbatim>\<open>new_map\<close>: its body, and the loop.\<close>

definition reindex_step ::
  "nat \<Rightarrow> int \<Rightarrow> ((nat \<times> int) \<times> 'v) list \<Rightarrow> (nat \<times> int) \<times> 'v \<Rightarrow> ((nat \<times> int) \<times> 'v) list"
where
  "reindex_step item_id point_idx new_map entry =
     (case entry of ((stored_id, stored_idx), m) \<Rightarrow>
        if stored_id = item_id then
          (if stored_idx < point_idx then dict_set new_map (stored_id, stored_idx) m
           else if stored_idx > point_idx then dict_set new_map (stored_id, stored_idx - 1) m
           else new_map)
        else dict_set new_map (stored_id, stored_idx) m)"

definition reindex_map ::
  "nat \<Rightarrow> int \<Rightarrow> ((nat \<times> int) \<times> 'v) list \<Rightarrow> ((nat \<times> int) \<times> 'v) list"
where
  "reindex_map item_id point_idx pmap = foldl (reindex_step item_id point_idx) [] pmap"

text \<open>\<^verbatim>\<open>_clear_selection\<close>.\<close>

definition clear_selection :: "generator \<Rightarrow> generator" where
  "clear_selection g =
     (let g1 =
        (case selected_item g of
           None \<Rightarrow> g
         | Some sid \<Rightarrow>
             (case map_of (items g) sid of
                None \<Rightarrow> g
              | Some it \<Rightarrow>
                  (if item_class it = ScatterPlotItem then
                     (case original_sizes it of
                        None \<Rightarrow> g
                      | Some os \<Rightarrow> g\<lparr>items := dict_set (items g) sid (it\<lparr>size_opt := os\<rparr>)\<rparr>)
                   else g)))
      in g1\<lparr>selected_item := None, selected_index := None,
             tooltip_visible := map_option (\<lambda>v. False) (tooltip_visible g1)\<rparr>)"

text \<open>
  \<^verbatim>\<open>_delete_point(item, point_idx, plot_widget)\<close>, the item given by its identity
  (an identity that is not in the store is no scatter item). The function returns
  nothing; the result is the state it leaves, \<open>Inr\<close> when it returns and \<open>Inl\<close> with
  the exception when it raises: the point id has been added to \<^verbatim>\<open>deleted_items\<close> by
  then. The boolean mask raises \<^verbatim>\<open>IndexError\<close> too when it is applied to a size
  array of another length.
\<close>

definition delete_point :: "generator \<Rightarrow> nat \<Rightarrow> int \<Rightarrow> (error \<times> generator) + generator" where
  "delete_point g item_id point_idx =
     (case map_of (items g) item_id of
        None \<Rightarrow> Inr g
      | Some item \<Rightarrow>
          if item_class item \<noteq> ScatterPlotItem then Inr g
          else
            let g1 = g\<lparr>deleted_items := insert (item_id, point_idx) (deleted_items g)\<rparr> in
            (case points item of
               None \<Rightarrow> Inr g1
             | Some pts \<Rightarrow>
                 if pts = [] then Inr g1
                 else
                   (case mask_index (length pts) point_idx of
                      None \<Rightarrow> Inl (IndexError, g1)
                    | Some k \<Rightarrow>
                        (case (case original_sizes item of
                                 None \<Rightarrow> Inr (item\<lparr>points := Some (drop_nth k pts)\<rparr>)
                               | Some (Scalar sz) \<Rightarrow>
                                   Inr (item\<lparr>points := Some (drop_nth k pts),
                                          size_opt := Scalar sz,
                                          original_sizes := Some (Scalar sz)\<rparr>)
                               | Some (PerPoint szs) \<Rightarrow>
                                   if length szs \<noteq> length pts then Inl IndexError
                                   else Inr (item\<lparr>points := Some (drop_nth k pts),
                                               size_opt := PerPoint (drop_nth k szs),
                                               original_sizes := Some (PerPoint (drop_nth k szs))\<rparr>))
                         of
                           Inl e \<Rightarrow> Inl (e, g1)
                         | Inr item' \<Rightarrow>
                             let g2 = g1\<lparr>items := dict_set (items g1) item_id item',
                                        point_measurement_map :=
                                          reindex_map item_id point_idx (point_measurement_map g1)\<rparr>
                             in if selected_item g2 = Some item_id \<and> selected_index g2 = Some point_idx
                                then Inr (clear_selection g2) else Inr g2))))"

text \<open>
  A session of deletion requests, each one call of \<^verbatim>\<open>_delete_point\<close> from the
  context menu: a call that raises ends there and leaves the state it has reached.
\<close>

definition state_after :: "(error \<times> generator) + generator \<Rightarrow> generator" where
  "state_after r = (case r of Inl (e, g) \<Rightarrow> g | Inr g \<Rightarrow> g)"

definition delete_points :: "generator \<Rightarrow> (nat \<times> int) list \<Rightarrow> generator" where
  "delete_points g requests =
     foldl (\<lambda>g (item_id, point_idx). state_after (delete_point g item_id point_idx)) g requests"

subsection \<open>Rendering (\<^verbatim>\<open>plot_data\<close>, \<^verbatim>\<open>apply_styling\<close>, \<^verbatim>\<open>setup_interactivity\<close>)\<close>

text \<open>
  The identity \<^verbatim>\<open>id(item)\<close> of a new object is chosen by the interpreter: it differs
  from the identities of the objects that exist, and may be the one of an object that
  is gone. The rendering functions take that choice as a parameter, a function from the
  items on the plot to the identity of the next object. \<^verbatim>\<open>plot_item.addItem\<close> puts
  the new object on the plot.
\<close>

type_synonym allocator = "(nat \<times> plot_item) list \<Rightarrow> nat"

definition add_item :: "allocator \<Rightarrow> plot_item \<Rightarrow> generator \<Rightarrow> generator" where
  "add_item new_id item g = g\<lparr>items := items g @ [(new_id (items g), item)]\<rparr>"

text \<open>
  Of an item that is no scatter collection (a line, a bar graph, a text label) the model
  keeps the class: deletion and undo read no other attribute of it.
\<close>

definition plain_item :: "item_class \<Rightarrow> plot_item" where
  "plain_item c = \<lparr>item_class = c, points = None, size_opt = Scalar 0, original_sizes = None\<rparr>"

text \<open>Sequencing of calls that may raise, and a \<^verbatim>\<open>for\<close> loop whose body may raise.\<close>

definition then_do :: "error + 's \<Rightarrow> ('s \<Rightarrow> error + 's) \<Rightarrow> error + 's" where
  "then_do r f = (case r of Inl e \<Rightarrow> Inl e | Inr s \<Rightarrow> f s)"

fun for_each :: "('a \<Rightarrow> 's \<Rightarrow> error + 's) \<Rightarrow> 'a list \<Rightarrow> 's \<Rightarrow> error + 's" where
  "for_each body [] s = Inr s"
| "for_each body (x # xs) s = then_do (body x s) (for_each body xs)"

text \<open>\<^verbatim>\<open>graph_utils.calculate_point_size\<close>.\<close>

definition calculate_point_size :: "int \<Rightarrow> real" where
  "calculate_point_size num_points =
     (if num_points \<le> 0 then 8
      else if num_points \<le> 20 then 15
      else if num_points \<le> 50 then 12
      else if num_points \<le> 100 then 10
      else if num_points \<le> 200 then 8
      else if num_points \<le> 500 then 7
      else if num_points \<le> 1000 then 6
      else 5)"

text \<open>The coordinate arrays of an item are arrays of floats.\<close>

definition num_real :: "num \<Rightarrow> real" where
  "num_real x = (case x of PyInt i \<Rightarrow> real_of_int i | PyFloat r \<Rightarrow> r)"

text \<open>
  The inner loop of \<^verbatim>\<open>_plot_scatter\<close>, over the indices of the points of one scatter
  collection: \<^verbatim>\<open>point_measurement_map[(id(scatter), idx)] =
  group_data['measurements'][group_data['measurement_indices'][idx]]\<close>. Both list
  accesses raise \<^verbatim>\<open>IndexError\<close> out of range.
\<close>

fun store_points ::
  "nat \<Rightarrow> group_data \<Rightarrow> nat list \<Rightarrow> ((nat \<times> int) \<times> measurement_data) list \<Rightarrow>
     error + ((nat \<times> int) \<times> measurement_data) list"
where
  "store_points scatter gd [] pmap = Inr pmap"
| "store_points scatter gd (idx # rest) pmap =
     (if idx < length (measurement_indices gd) then
        (let meas_idx = measurement_indices gd ! idx in
           if meas_idx < length (group_measurements gd) then
             store_points scatter gd rest
               (dict_set pmap (scatter, int idx) (group_measurements gd ! meas_idx))
           else Inl IndexError)
      else Inl IndexError)"

text \<open>
  The body of the loop of \<^verbatim>\<open>_plot_scatter\<close> for a group with x values: a new
  \<^verbatim>\<open>ScatterPlotItem\<close> with the coordinate arrays of the group is put on the plot, and
  its points are entered in the map.
\<close>

definition plot_scatter_group ::
  "allocator \<Rightarrow> group_data \<Rightarrow> real \<Rightarrow> generator \<Rightarrow> error + generator"
where
  "plot_scatter_group new_id gd point_size g =
     (let pts = zip (map num_real (x_data gd)) (y_data gd);
          scatter = new_id (items g);
          g1 = add_item new_id
                 \<lparr>item_class = ScatterPlotItem, points = Some pts,
                  size_opt = Scalar point_size, original_sizes = None\<rparr> g
      in case store_points scatter gd [0 ..< length pts] (point_measurement_map g1) of
           Inl e \<Rightarrow> Inl e
         | Inr pmap \<Rightarrow> Inr (g1\<lparr>point_measurement_map := pmap\<rparr>))"

text \<open>
  \<^verbatim>\<open>_plot_scatter\<close>. \<^verbatim>\<open>self.prepared_data['groups']\<close> raises \<^verbatim>\<open>KeyError\<close> while
  the prepared data is the empty dictionary. The colours and the axis ranges that the
  function sets are not part of the state.
\<close>

definition plot_scatter :: "allocator \<Rightarrow> generator \<Rightarrow> error + generator" where
  "plot_scatter new_id g =
     (case prepared_data g of
        None \<Rightarrow> Inl KeyError
      | Some p \<Rightarrow>
          let point_size = (if enable_size_scaling (config g)
                            then calculate_point_size (total_points p) else 8)
          in for_each
               (\<lambda>(group_name, gd) g'.
                  if x_data gd \<noteq> [] then plot_scatter_group new_id gd point_size g'
                  else Inr g')
               (groups p) g)"

text \<open>
  \<^verbatim>\<open>_plot_overlaid_plots\<close>: one line per record with plot data. \<^verbatim>\<open>_plot_line\<close>: one
  line per group that has points left after the outliers are taken out, and the
  overlaid plots of the group; a group without such points is left by \<^verbatim>\<open>continue\<close>,
  before its overlaid plots.
\<close>

definition plot_overlaid_plots ::
  "allocator \<Rightarrow> measurement_data list \<Rightarrow> generator \<Rightarrow> error + generator"
where
  "plot_overlaid_plots new_id plots g =
     for_each
       (\<lambda>m g'. case plot_data m of
                  None \<Rightarrow> Inr g'
                | Some ps \<Rightarrow> if ps = [] then Inr g'
                             else Inr (add_item new_id (plain_item PlotDataItem) g'))
       plots g"

definition plot_line :: "allocator \<Rightarrow> generator \<Rightarrow> error + generator" where
  "plot_line new_id g =
     (case prepared_data g of
        None \<Rightarrow> Inl KeyError
      | Some p \<Rightarrow>
          let cfg = config g;
              overlay = (\<lambda>gd g'.
                 if has_plots gd \<and> auto_overlay_plots cfg
                 then plot_overlaid_plots new_id (plot_measurements gd) g' else Inr g')
          in for_each
               (\<lambda>(group_name, gd) g'.
                  if x_data gd \<noteq> [] \<and> y_data gd \<noteq> [] then
                    (let x_filtered =
                       (if remove_outliers cfg
                        then map fst (filter (\<lambda>(x, out). \<not> out) (zip (x_data gd) (is_outlier gd)))
                        else x_data gd)
                     in if x_filtered = [] then Inr g'
                        else overlay gd (add_item new_id (plain_item PlotDataItem) g'))
                  else overlay gd g')
               (groups p) g)"

text \<open>
  \<^verbatim>\<open>_plot_histogram\<close>: one bar graph of all values. \<^verbatim>\<open>np.histogram\<close> raises
  \<^verbatim>\<open>ValueError\<close> when a value is NaN (the range of the values is not finite).
\<close>

definition plot_histogram :: "allocator \<Rightarrow> generator \<Rightarrow> error + generator" where
  "plot_histogram new_id g =
     (case prepared_data g of
        None \<Rightarrow> Inl KeyError
      | Some p \<Rightarrow>
          let cfg = config g;
              all_values = concat (map (\<lambda>(group_name, gd).
                 if y_data gd \<noteq> [] then
                   (if remove_outliers cfg
                    then map fst (filter (\<lambda>(y, out). \<not> out) (zip (y_data gd) (is_outlier gd)))
                    else y_data gd)
                 else []) (groups p))
          in if all_values = [] then Inr g
             else if None \<in> set all_values then Inl (ValueError RangeNotFinite)
             else Inr (add_item new_id (plain_item BarGraphItem) g))"

text \<open>\<^verbatim>\<open>plot_data\<close>, the method of the generator.\<close>

definition generator_plot_data :: "allocator \<Rightarrow> generator \<Rightarrow> error + generator" where
  "generator_plot_data new_id g =
     (case graph_type (config g) of
        SCATTER \<Rightarrow> plot_scatter new_id g
      | LINE \<Rightarrow> plot_line new_id g
      | HISTOGRAM \<Rightarrow> plot_histogram new_id g)"

text \<open>
  \<^verbatim>\<open>_add_spec_lines\<close> and \<^verbatim>\<open>_add_spec_lines_vertical\<close>: one \<^verbatim>\<open>InfiniteLine\<close> per
  element of the set of limits (the two functions differ in the angle of the lines).
  The set is taken in the order of first insertion.
\<close>

definition spec_limits :: "prepared \<Rightarrow> (string \<times> real) list" where
  "spec_limits p =
     remdups (concat (map (\<lambda>(group_name, gd).
        concat (map (\<lambda>m.
           (case upper_limit m of None \<Rightarrow> [] | Some u \<Rightarrow> [(''upper'', u)]) @
           (case lower_limit m of None \<Rightarrow> [] | Some l \<Rightarrow> [(''lower'', l)]))
         (group_measurements gd))) (groups p)))"

definition add_spec_lines :: "allocator \<Rightarrow> prepared \<Rightarrow> generator \<Rightarrow> error + generator" where
  "add_spec_lines new_id p g =
     for_each (\<lambda>limit g'. Inr (add_item new_id (plain_item InfiniteLine) g')) (spec_limits p) g"

text \<open>
  \<^verbatim>\<open>_add_grouping_boxes\<close>. The lower end \<^verbatim>\<open>y_min\<close> of the y range starts at
  \<^verbatim>\<open>float('inf')\<close>; \<^verbatim>\<open>min(y_min, min(y_data))\<close> with Python's \<^verbatim>\<open>min\<close>, which keeps
  its first argument unless a later one is less (a comparison with NaN is false). The
  function returns when \<^verbatim>\<open>y_min\<close> is still infinite; else it adds a dashed box (a
  \<^verbatim>\<open>PlotDataItem\<close>) and a label per group with x values.
\<close>

definition py_min :: "real option \<Rightarrow> real option list \<Rightarrow> real option" where
  "py_min first rest =
     foldl (\<lambda>m v. case (v, m) of (Some a, Some b) \<Rightarrow> if a < b then v else m | _ \<Rightarrow> m) first rest"

datatype bound = Infinite | Bound real

definition lower_bound :: "bound \<Rightarrow> real option \<Rightarrow> bound" where
  "lower_bound y_min v =
     (case v of
        None \<Rightarrow> y_min
      | Some a \<Rightarrow> (case y_min of Infinite \<Rightarrow> Bound a
                               | Bound b \<Rightarrow> if a < b then Bound a else Bound b))"

definition add_grouping_boxes :: "allocator \<Rightarrow> prepared \<Rightarrow> generator \<Rightarrow> error + generator" where
  "add_grouping_boxes new_id p g =
     (if length (groups p) \<le> 1 then Inr g
      else
        let y_min = foldl (\<lambda>b (group_name, gd).
                      case y_data gd of [] \<Rightarrow> b | y # ys \<Rightarrow> lower_bound b (py_min y ys))
                    Infinite (groups p)
        in if y_min = Infinite then Inr g
           else for_each
                  (\<lambda>(group_name, gd) g'.
                     if x_data gd = [] then Inr g'
                     else Inr (add_item new_id (plain_item TextItem)
                                 (add_item new_id (plain_item PlotDataItem) g')))
                  (groups p) g)"

text \<open>\<^verbatim>\<open>_add_comparison_reference_line\<close>: the line y = x, when there is a value.\<close>

definition add_comparison_reference_line ::
  "allocator \<Rightarrow> prepared \<Rightarrow> generator \<Rightarrow> error + generator"
where
  "add_comparison_reference_line new_id p g =
     (if list_all (\<lambda>(group_name, gd). x_data gd = [] \<and> y_data gd = []) (groups p) then Inr g
      else Inr (add_item new_id (plain_item PlotDataItem) g))"

text \<open>
  \<^verbatim>\<open>apply_styling\<close>. The legend (\<^verbatim>\<open>_add_styled_legend\<close>) is no item of the plot, and
  \<^verbatim>\<open>_set_axis_ranges\<close> sets the view: neither changes the state. The latter reads
  \<^verbatim>\<open>self.prepared_data['groups']\<close> in every configuration.
\<close>

definition apply_styling :: "allocator \<Rightarrow> generator \<Rightarrow> error + generator" where
  "apply_styling new_id g =
     (case prepared_data g of
        None \<Rightarrow> Inl KeyError
      | Some p \<Rightarrow>
          let cfg = config g in
          then_do (if show_spec_lines cfg then add_spec_lines new_id p g else Inr g)
            (\<lambda>g1. then_do
               (if enable_grouping_boxes cfg \<and> graph_type cfg = SCATTER
                then add_grouping_boxes new_id p g1 else Inr g1)
               (\<lambda>g2. if comparison_mode cfg \<noteq> NONE \<and> show_comparison_line cfg
                      then add_comparison_reference_line new_id p g2 else Inr g2)))"

text \<open>
  \<^verbatim>\<open>setup_interactivity\<close>: the two lines of the crosshair (\<^verbatim>\<open>_add_crosshair\<close>) and
  a new, hidden tooltip label (\<^verbatim>\<open>_setup_tooltip\<close>). The context menu and the signal
  connections are not part of the state.
\<close>

definition add_crosshair :: "allocator \<Rightarrow> generator \<Rightarrow> generator" where
  "add_crosshair new_id g =
     add_item new_id (plain_item InfiniteLine) (add_item new_id (plain_item InfiniteLine) g)"

definition setup_tooltip :: "allocator \<Rightarrow> generator \<Rightarrow> generator" where
  "setup_tooltip new_id g =
     add_item new_id (plain_item TextItem) (g\<lparr>tooltip_visible := Some False\<rparr>)"

definition setup_interactivity :: "allocator \<Rightarrow> generator \<Rightarrow> generator" where
  "setup_interactivity new_id g =
     (let g1 = (if enable_crosshair (config g) then add_crosshair new_id g else g)
      in if enable_tooltips (config g1) then setup_tooltip new_id g1 else g1)"

subsection \<open>Undo (\<^verbatim>\<open>reset_deletions\<close>) and the creation of a plot\<close>

text \<open>
  \<^verbatim>\<open>reset_deletions\<close>: the set of deleted ids is emptied, the prepared data is replaced
  by a deep copy of the snapshot (an equal value) when there is one, the selection is
  cleared, and the plot is rendered again: \<^verbatim>\<open>plot_widget.clear()\<close> takes every item
  off the plot, then \<^verbatim>\<open>plot_data\<close>, \<^verbatim>\<open>apply_styling\<close> and
  \<^verbatim>\<open>setup_interactivity\<close> run as in the first rendering. The map of the points is not
  emptied. The result is \<open>Inl\<close> with the exception when the rendering raises.
\<close>

definition reset_deletions :: "allocator \<Rightarrow> generator \<Rightarrow> error + generator" where
  "reset_deletions new_id g =
     (let g1 = g\<lparr>deleted_items := {}\<rparr>;
          g2 = (case original_data g1 of
                  None \<Rightarrow> g1
                | Some snapshot \<Rightarrow> g1\<lparr>prepared_data := Some snapshot\<rparr>);
          g3 = clear_selection g2;
          g4 = g3\<lparr>items := []\<rparr>
      in then_do (generator_plot_data new_id g4)
           (\<lambda>g5. then_do (apply_styling new_id g5)
              (\<lambda>g6. Inr (setup_interactivity new_id g6))))"

text \<open>
  \<^verbatim>\<open>graph_page._create_plot\<close> (and \<^verbatim>\<open>GraphWorker.run\<close>, which makes the same calls):
  a new generator, \<^verbatim>\<open>prepare_data\<close>, a new plot widget, and the first rendering. The
  result is the state of the generator behind the widget, or the exception that the
  function catches.
\<close>

definition create_plot :: "allocator \<Rightarrow> GraphConfig \<Rightarrow> error + generator" where
  "create_plot new_id cfg =
     then_do (prepare_data (new_generator cfg))
       (\<lambda>g1. then_do (generator_plot_data new_id g1)
          (\<lambda>g2. then_do (apply_styling new_id g2)
             (\<lambda>g3. Inr (setup_interactivity new_id g3))))"

subsection \<open>What a rendered plot shows\<close>

text \<open>
  The scatter collections on the plot, in the order in which they were added, and for
  each of them the records that the map gives for its points.
\<close>

definition scatter_collections :: "generator \<Rightarrow> (nat \<times> plot_item) list" where
  "scatter_collections g = filter (\<lambda>(i, item). item_class item = ScatterPlotItem) (items g)"

definition point_count :: "plot_item \<Rightarrow> nat" where
  "point_count item = (case points item of None \<Rightarrow> 0 | Some pts \<Rightarrow> length pts)"

definition point_records :: "generator \<Rightarrow> measurement_data option list list" where
  "point_records g =
     map (\<lambda>(i, item). map (\<lambda>j. map_of (point_measurement_map g) (i, int j))
                          [0 ..< point_count item])
       (scatter_collections g)"

text \<open>
  Two states show the same plot: the same configuration and prepared data, the same
  items in the same order up to their identities, the same records behind the points,
  and in each state no identity twice.
\<close>

definition same_plot :: "generator \<Rightarrow> generator \<Rightarrow> bool" where
  "same_plot g h \<longleftrightarrow>
     config g = config h \<and> prepared_data g = prepared_data h \<and>
     map snd (items g) = map snd (items h) \<and> point_records g = point_records h \<and>
     distinct (map fst (items g)) \<and> distinct (map fst (items h))"

text \<open>Two states hold the same data: what rendering neither reads from the plot nor changes.\<close>

definition same_data :: "generator \<Rightarrow> generator \<Rightarrow> bool" where
  "same_data g h \<longleftrightarrow>
     config g = config h \<and> prepared_data g = prepared_data h \<and>
     original_data g = original_data h \<and> deleted_items g = deleted_items h"

subsection \<open>Pairing by batch (\<^verbatim>\<open>graph_page._pair_by_batch\<close>)\<close>

text \<open>
  The device id of a paired point: the serial number, or \<^verbatim>\<open>f"Device {n}"\<close> when the
  record has none.
\<close>

datatype device_label = Serial string | DeviceNo nat

record batch_pair =
  bp_device_id :: device_label
  bp_our_value :: "real option"
  bp_mfr_value :: real
  bp_our_measurement :: measurement_data
  batch_a :: string
  batch_b :: string
  batch_b_avg :: real

text \<open>
  \<^verbatim>\<open>_get_device_serial\<close>: the serial number of the PIA board when the test log has
  one, else that of the PMT device. \<^verbatim>\<open>_get_pia_batch\<close> is the part number of the PIA
  board, \<^verbatim>\<open>_get_pmt_batch\<close> the batch number of the PMT device.
\<close>

definition get_device_serial :: "measurement_data \<Rightarrow> string option" where
  "get_device_serial m =
     (case pia m of
        Some b \<Rightarrow> serial_number b
      | None \<Rightarrow> (case pmt m of Some d \<Rightarrow> pmt_serial_number d | None \<Rightarrow> None))"

definition get_pia_batch :: "measurement_data \<Rightarrow> string option" where
  "get_pia_batch m = (case pia m of None \<Rightarrow> None | Some b \<Rightarrow> part_number b)"

definition get_pmt_batch :: "measurement_data \<Rightarrow> string option" where
  "get_pmt_batch m = (case pmt m of None \<Rightarrow> None | Some d \<Rightarrow> batch_number d)"

text \<open>
  The first loop of \<^verbatim>\<open>_pair_by_batch\<close>: a record is kept under its batch when the
  batch is truthy and the measurement is not \<^verbatim>\<open>None\<close>.
\<close>

definition batch_key :: "string \<Rightarrow> measurement_data \<Rightarrow> string option" where
  "batch_key batch_type m =
     (let batch = (if batch_type = ''pia'' then get_pia_batch m else get_pmt_batch m)
      in if truthy batch \<and> measurement m \<noteq> None then batch else None)"

definition batch_measurements :: "string \<Rightarrow> measurement_data list \<Rightarrow> (string \<times> measurement_data list) list" where
  "batch_measurements batch_type ms =
     foldl (\<lambda>d m. case batch_key batch_type m of None \<Rightarrow> d | Some batch \<Rightarrow> dict_append d batch m)
       [] ms"

text \<open>
  \<^verbatim>\<open>sum(m.measurement for m in ...) / len(...)\<close>: the sum starts at 0 and raises
  \<^verbatim>\<open>TypeError\<close> on \<^verbatim>\<open>None\<close>; the division raises on an empty list.
\<close>

fun sum_measurements :: "measurement_data list \<Rightarrow> real \<Rightarrow> error + real" where
  "sum_measurements [] acc = Inr acc"
| "sum_measurements (m # ms) acc =
     (case measurement m of None \<Rightarrow> Inl TypeError | Some v \<Rightarrow> sum_measurements ms (acc + v))"

definition batch_average :: "measurement_data list \<Rightarrow> error + real" where
  "batch_average ms =
     (case sum_measurements ms 0 of
        Inl e \<Rightarrow> Inl e
      | Inr s \<Rightarrow> if length ms = 0 then Inl ZeroDivisionError else Inr (s / real (length ms)))"

text \<open>The last loop: one paired point per record of batch A, against the average of batch B.\<close>

definition batch_pairs :: "string \<Rightarrow> string \<Rightarrow> real \<Rightarrow> measurement_data list \<Rightarrow> batch_pair list" where
  "batch_pairs a b avg_b ms =
     map (\<lambda>(i, m).
        \<lparr>bp_device_id = (case get_device_serial m of
                           None \<Rightarrow> DeviceNo (i + 1)
                         | Some s \<Rightarrow> if s = [] then DeviceNo (i + 1) else Serial s),
         bp_our_value = measurement m, bp_mfr_value = avg_b, bp_our_measurement = m,
         batch_a = a, batch_b = b, batch_b_avg = avg_b\<rparr>)
       (zip [0 ..< length ms] ms)"

text \<open>
  \<^verbatim>\<open>_pair_by_batch\<close>. \<^verbatim>\<open>sorted(batch_names, key=..., reverse=True)\<close> is stable
  (batches with as many records keep their order): it is the stable sort by the negated
  number of records, here on the items of the dictionary.
\<close>

definition pair_by_batch :: "measurement_data list \<Rightarrow> string \<Rightarrow> error + batch_pair list" where
  "pair_by_batch ms batch_type =
     (let bm = batch_measurements batch_type ms in
      if length bm < 2 then Inr []
      else
        (case sort_key (\<lambda>(b, rs). - int (length rs)) bm of
           (a, rs_a) # (b, rs_b) # rest \<Rightarrow>
             (case batch_average rs_a of
                Inl e \<Rightarrow> Inl e
              | Inr avg_a \<Rightarrow>
                  (case batch_average rs_b of
                     Inl e \<Rightarrow> Inl e
                   | Inr avg_b \<Rightarrow> Inr (batch_pairs a b avg_b rs_a)))
         | _ \<Rightarrow> Inl IndexError))"

subsection \<open>Pairing by fixture (\<^verbatim>\<open>graph_page._pair_by_test_fixture\<close>)\<close>









subsection \<open>Index continuity, as the specification words it\<close>

text \<open>
  The number of records of a group that the standard extraction keeps (it skips the
  records that carry a plot series).
\<close>

definition scalar_count :: "measurement_data list \<Rightarrow> nat" where
  "scalar_count ms = length (filter (\<lambda>m. \<not> is_plot m) ms)"

text \<open>
  This predicate follows the words of the specification, not the code: the x values of
  index-based scatter mode are "a monotonically increasing global integer carried across
  groups with a gap of exactly 1 between groups". Given the next free integer, every
  block of x values consists of consecutive integers from it on, and after a block that
  is not empty exactly one integer is left out.
\<close>

fun index_continuity :: "int \<Rightarrow> num list list \<Rightarrow> bool" where
  "index_continuity next_x [] = True"
| "index_continuity next_x (block # blocks) =
     (block = map (\<lambda>j. PyInt (next_x + int j)) [0 ..< length block] \<and>
      index_continuity (if block = [] then next_x else next_x + int (length block) + 1) blocks)"

subsection \<open>Example data\<close>

text \<open>
  A scalar record named "Gain" with a value and nothing else, a configuration with
  seven such records in the groups A (three) and B (four), and a rendered state: item 1
  is a scatter collection of five points, item 2 a scatter collection of two points,
  item 3 a bar graph, item 4 a scatter collection without points.
\<close>

definition blank_measurement :: "nat \<Rightarrow> real \<Rightarrow> measurement_data" where
  "blank_measurement i v =
     \<lparr>spec_id = i, name = ''Gain'', measurement = Some v, nominal = None, has_plot = False,
      plot_data = None, pia = None, pmt = None, test_fixture = None, test_id = i,
      x_value = FieldNone, x_field_value = None, group_value = None,
      upper_limit = None, lower_limit = None\<rparr>"

definition example_config :: GraphConfig where
  "example_config = default_config\<lparr>measurements :=
       [(blank_measurement 1 10)\<lparr>group_value := Some ''A''\<rparr>,
        (blank_measurement 2 11)\<lparr>group_value := Some ''B''\<rparr>,
        (blank_measurement 3 12)\<lparr>group_value := Some ''A''\<rparr>,
        (blank_measurement 4 13)\<lparr>group_value := Some ''B''\<rparr>,
        (blank_measurement 5 14)\<lparr>group_value := Some ''A''\<rparr>,
        (blank_measurement 6 15)\<lparr>group_value := Some ''B''\<rparr>,
        (blank_measurement 7 16)\<lparr>group_value := Some ''B''\<rparr>],
      group_by_field := Some ''pmt_batch''\<rparr>"

text \<open>
  The same configuration with one more record of group A, whose x-axis field holds a
  text that is no number.
\<close>

definition example_text_config :: GraphConfig where
  "example_text_config = example_config\<lparr>measurements :=
       measurements example_config @
         [(blank_measurement 8 17)\<lparr>group_value := Some ''A'',
            x_value := FieldOther (ValueError NotAFloat)\<rparr>]\<rparr>"

text \<open>
  Identities for new objects: above every identity on the plot, and above a base. The
  plot of the example configuration as the first rendering leaves it, with the base 0:
  the two scatter collections of the groups A and B, the two lines of the crosshair
  and the tooltip label, and the records behind the points.
\<close>

definition example_allocator :: "nat \<Rightarrow> allocator" where
  "example_allocator base store = Suc (base + foldr max (map fst store) 0)"

definition example_plot_items :: "(nat \<times> plot_item) list" where
  "example_plot_items =
       [(1, \<lparr>item_class = ScatterPlotItem,
             points = Some [(0, Some 10), (1, Some 12), (2, Some 14)],
             size_opt = Scalar 15, original_sizes = None\<rparr>),
        (2, \<lparr>item_class = ScatterPlotItem,
             points = Some [(4, Some 11), (5, Some 13), (6, Some 15), (7, Some 16)],
             size_opt = Scalar 15, original_sizes = None\<rparr>),
        (3, plain_item InfiniteLine), (4, plain_item InfiniteLine), (5, plain_item TextItem)]"

definition example_plot_map :: "((nat \<times> int) \<times> measurement_data) list" where
  "example_plot_map =
       [((1, 0), (blank_measurement 1 10)\<lparr>group_value := Some ''A''\<rparr>),
        ((1, 1), (blank_measurement 3 12)\<lparr>group_value := Some ''A''\<rparr>),
        ((1, 2), (blank_measurement 5 14)\<lparr>group_value := Some ''A''\<rparr>),
        ((2, 0), (blank_measurement 2 11)\<lparr>group_value := Some ''B''\<rparr>),
        ((2, 1), (blank_measurement 4 13)\<lparr>group_value := Some ''B''\<rparr>),
        ((2, 2), (blank_measurement 6 15)\<lparr>group_value := Some ''B''\<rparr>),
        ((2, 3), (blank_measurement 7 16)\<lparr>group_value := Some ''B''\<rparr>)]"

definition example_items :: "(nat \<times> plot_item) list" where
  "example_items =
     [(1, \<lparr>item_class = ScatterPlotItem,
           points = Some [(0, Some 10), (1, Some 11), (2, Some 12), (3, Some 13), (4, Some 14)],
           size_opt = Scalar 15, original_sizes = None\<rparr>),
      (2, \<lparr>item_class = ScatterPlotItem,
           points = Some [(6, Some 20), (7, Some 21)],
           size_opt = Scalar 15, original_sizes = None\<rparr>),
      (3, \<lparr>item_class = BarGraphItem, points = None,
           size_opt = Scalar 15, original_sizes = None\<rparr>),
      (4, \<lparr>item_class = ScatterPlotItem, points = Some [],
           size_opt = Scalar 15, original_sizes = None\<rparr>)]"

definition example_map :: "((nat \<times> int) \<times> measurement_data) list" where
  "example_map =
     [((1, 0), blank_measurement 1 10), ((1, 1), blank_measurement 2 11),
      ((1, 2), blank_measurement 3 12), ((1, 3), blank_measurement 4 13),
      ((1, 4), blank_measurement 5 14),
      ((2, 0), blank_measurement 6 20), ((2, 1), blank_measurement 7 21)]"

definition example_generator :: generator where
  "example_generator =
     (new_generator example_config)\<lparr>items := example_items, point_measurement_map := example_map\<rparr>"

text \<open>
  Eleven records of three PMT batches, in the order of arrival: B1 (three records, of
  mean 20), B2 (seven records) and B3 (one record).
\<close>

definition batch_record :: "nat \<Rightarrow> real \<Rightarrow> string \<Rightarrow> measurement_data" where
  "batch_record i v b =
     (blank_measurement i v)\<lparr>pmt := Some \<lparr>pmt_serial_number = None, batch_number = Some b\<rparr>\<rparr>"

definition example_batches :: "measurement_data list" where
  "example_batches =
     [batch_record 1 10 ''B1'', batch_record 2 1 ''B2'', batch_record 3 5 ''B3'',
      batch_record 4 2 ''B2'', batch_record 5 20 ''B1'', batch_record 6 3 ''B2'',
      batch_record 7 4 ''B2'', batch_record 8 30 ''B1'', batch_record 9 5 ''B2'',
      batch_record 10 6 ''B2'', batch_record 11 7 ''B2'']"



section \<open>Outlier detection\<close>

lemma length_detect_outliers: "length (detect_outliers vs n) = length vs"
  by (simp add: detect_outliers_def Let_def)

lemma detect_outliers_few:
  "length (valid_values vs) < 3 \<Longrightarrow> detect_outliers vs n = replicate (length vs) False"
  by (simp add: detect_outliers_def Let_def)

lemma np_std_zero_iff: "np_std xs = 0 \<longleftrightarrow> np_var xs = 0"
  by (simp add: np_std_def)

lemma detect_outliers_zero_var:
  "np_var (valid_values vs) = 0 \<Longrightarrow> detect_outliers vs n = replicate (length vs) False"
  by (simp add: detect_outliers_def Let_def np_std_zero_iff)

lemma length_valid_values_le: "length (valid_values vs) \<le> length vs"
  by (induction vs) (auto simp: valid_values_def List.map_filter_simps split: option.splits)

lemma detect_outliers_nth:
  assumes "3 \<le> length (valid_values vs)" and "np_var (valid_values vs) \<noteq> 0"
    and "i < length vs"
  shows "detect_outliers vs n ! i =
           (case vs ! i of None \<Rightarrow> False
            | Some x \<Rightarrow> n < \<bar>x - np_mean (valid_values vs)\<bar> / np_std (valid_values vs))"
proof -
  have len: "\<not> length vs < 3"
    using assms(1) length_valid_values_le [of vs] by linarith
  have std: "np_std (valid_values vs) \<noteq> 0"
    using assms(2) by (simp add: np_std_zero_iff)
  have pos: "0 \<le> np_std (valid_values vs)"
    by (auto simp: np_std_def np_var_def intro!: divide_nonneg_nonneg sum_list_nonneg)
  have eq: "detect_outliers vs n =
          map (\<lambda>v. case v of None \<Rightarrow> False
                 | Some x \<Rightarrow> n < \<bar>(x - np_mean (valid_values vs)) / np_std (valid_values vs)\<bar>) vs"
  proof -
    have v3: "\<not> length (valid_values vs) < 3"
      using assms(1) by simp
    show ?thesis
      by (simp only: detect_outliers_def Let_def len v3 std if_False)
  qed
  have ab: "\<bar>np_std (valid_values vs)\<bar> = np_std (valid_values vs)"
    using pos by simp
  show ?thesis
    unfolding eq using assms(3) by (cases "vs ! i") (simp_all add: abs_divide ab)
qed

lemma detect_outliers_None:
  assumes "i < length vs" and "vs ! i = None"
  shows "\<not> detect_outliers vs n ! i"
  using assms by (simp add: detect_outliers_def Let_def)

lemmas outlier_eval =
  detect_outliers_def default_n_std_def np_std_def np_var_def np_mean_def valid_values_def
  List.map_filter_simps Let_def

text \<open>
  Claim C10. For every input list and every threshold, \<^verbatim>\<open>detect_outliers\<close> returns
  a list of the length of its input, and every position that holds a missing value
  (NaN) is false in it.
\<close>

theorem detect_outliers_length_missing:
  "length (detect_outliers vs n) = length vs \<and>
   (\<forall>i < length vs. vs ! i = None \<longrightarrow> \<not> detect_outliers vs n ! i)"
  using length_detect_outliers detect_outliers_None by blast

theorem detect_outliers_length_missing_witness:
  "[None, Some 0, Some 0, Some 0, Some 0, Some 0, Some 0, Some 0, Some 0, Some 0, Some 0,
    Some 0, Some 0, Some 0, Some 0, Some 0, Some 0, Some (17::real)] ! 0 = None \<and>
   length (detect_outliers
     [None, Some 0, Some 0, Some 0, Some 0, Some 0, Some 0, Some 0, Some 0, Some 0, Some 0,
      Some 0, Some 0, Some 0, Some 0, Some 0, Some 0, Some 17] 3) = 18 \<and>
   \<not> detect_outliers
     [None, Some 0, Some 0, Some 0, Some 0, Some 0, Some 0, Some 0, Some 0, Some 0, Some 0,
      Some 0, Some 0, Some 0, Some 0, Some 0, Some 0, Some 17] 3 ! 0 \<and>
   detect_outliers
     [None, Some 0, Some 0, Some 0, Some 0, Some 0, Some 0, Some 0, Some 0, Some 0, Some 0,
      Some 0, Some 0, Some 0, Some 0, Some 0, Some 0, Some 17] 3 ! 17"
proof -
  let ?vs = "[None, Some 0, Some 0, Some 0, Some 0, Some 0, Some 0, Some 0, Some 0, Some 0,
    Some 0, Some 0, Some 0, Some 0, Some 0, Some 0, Some 0, Some (17::real)]"
  have h: "?vs ! 0 = None" and l: "0 < length ?vs" and l18: "length ?vs = 18"
    by simp_all
  have a: "length (detect_outliers ?vs 3) = 18"
    using detect_outliers_length_missing [of ?vs 3] l18 by simp
  have b: "\<not> detect_outliers ?vs 3 ! 0"
    using detect_outliers_length_missing [of ?vs 3] h l by blast
  have c: "detect_outliers ?vs 3 ! 17"
    by (simp add: outlier_eval)
  show ?thesis
    using h a b c by blast
qed

section \<open>Configuration validation\<close>

lemma post_init_same_Inr:
  assumes "comparison_mode c = SAME_MEASUREMENT" and "post_init c = Inr c'"
  shows "c' = c\<lparr>y_axis_measurement := x_axis_measurement c\<rparr>"
  using assms
  by (auto simp: post_init_def check_comparison_def check_options_def
           split: if_splits sum.splits)

lemma post_init_different_no_y:
  assumes "comparison_mode c = DIFFERENT_MEASUREMENTS" and "\<not> truthy (y_axis_measurement c)"
  shows "post_init c = Inl (ValueError (if truthy (x_axis_measurement c)
           then MissingYAxisMeasurement else MissingXAxisMeasurement))"
  using assms by (simp add: post_init_def check_comparison_def)

lemma post_init_same_mismatch:
  assumes "comparison_mode c = SAME_MEASUREMENT" and "truthy (y_axis_measurement c)"
    and "y_axis_measurement c \<noteq> x_axis_measurement c"
  shows "post_init c = Inl (ValueError (if truthy (x_axis_measurement c)
           then YAxisMismatch else MissingXAxisMeasurement))"
  using assms by (simp add: post_init_def check_comparison_def)

text \<open>
  Claim C8. Validation at construction: in different-measurements submode a
  configuration with no y-axis measurement (\<^verbatim>\<open>None\<close> or empty) raises a
  \<^verbatim>\<open>ValueError\<close>; in same-measurement submode a supplied (non-empty) y-axis
  measurement that differs from the x-axis measurement raises a \<^verbatim>\<open>ValueError\<close>; and
  when construction succeeds in same-measurement submode, the configuration is the
  given one with the y-axis measurement set to the x-axis measurement.
\<close>

theorem post_init_comparison_rules:
  "(comparison_mode c = DIFFERENT_MEASUREMENTS \<and> \<not> truthy (y_axis_measurement c) \<longrightarrow>
      (\<exists>e. post_init c = Inl (ValueError e))) \<and>
   (comparison_mode c = SAME_MEASUREMENT \<and> truthy (y_axis_measurement c) \<and>
    y_axis_measurement c \<noteq> x_axis_measurement c \<longrightarrow>
      (\<exists>e. post_init c = Inl (ValueError e))) \<and>
   (comparison_mode c = SAME_MEASUREMENT \<and> post_init c = Inr c' \<longrightarrow>
      y_axis_measurement c' = x_axis_measurement c' \<and>
      c' = c\<lparr>y_axis_measurement := x_axis_measurement c\<rparr>)"
proof (intro conjI impI)
  assume "comparison_mode c = DIFFERENT_MEASUREMENTS \<and> \<not> truthy (y_axis_measurement c)"
  then show "\<exists>e. post_init c = Inl (ValueError e)"
    using post_init_different_no_y by blast
next
  assume "comparison_mode c = SAME_MEASUREMENT \<and> truthy (y_axis_measurement c) \<and>
    y_axis_measurement c \<noteq> x_axis_measurement c"
  then show "\<exists>e. post_init c = Inl (ValueError e)"
    using post_init_same_mismatch by blast
next
  assume h: "comparison_mode c = SAME_MEASUREMENT \<and> post_init c = Inr c'"
  then have e: "c' = c\<lparr>y_axis_measurement := x_axis_measurement c\<rparr>"
    using post_init_same_Inr by blast
  then show "y_axis_measurement c' = x_axis_measurement c'"
    by simp
  show "c' = c\<lparr>y_axis_measurement := x_axis_measurement c\<rparr>"
    by (rule e)
qed

lemmas config_eval =
  post_init_def check_comparison_def check_options_def default_config_def truthy_def

theorem post_init_comparison_rules_witness:
  "post_init (default_config\<lparr>comparison_mode := DIFFERENT_MEASUREMENTS,
      x_axis_measurement := Some ''Gain''\<rparr>) = Inl (ValueError MissingYAxisMeasurement) \<and>
   post_init (default_config\<lparr>comparison_mode := SAME_MEASUREMENT,
      x_axis_measurement := Some ''Gain'', y_axis_measurement := Some ''Noise''\<rparr>)
     = Inl (ValueError YAxisMismatch) \<and>
   post_init (default_config\<lparr>comparison_mode := SAME_MEASUREMENT,
      x_axis_measurement := Some ''Gain''\<rparr>)
     = Inr (default_config\<lparr>comparison_mode := SAME_MEASUREMENT,
         x_axis_measurement := Some ''Gain'', y_axis_measurement := Some ''Gain''\<rparr>)"
proof -
  let ?d = "default_config\<lparr>comparison_mode := DIFFERENT_MEASUREMENTS,
      x_axis_measurement := Some ''Gain''\<rparr>"
  let ?m = "default_config\<lparr>comparison_mode := SAME_MEASUREMENT,
      x_axis_measurement := Some ''Gain'', y_axis_measurement := Some ''Noise''\<rparr>"
  let ?s = "default_config\<lparr>comparison_mode := SAME_MEASUREMENT,
      x_axis_measurement := Some ''Gain''\<rparr>"
  let ?s' = "default_config\<lparr>comparison_mode := SAME_MEASUREMENT,
      x_axis_measurement := Some ''Gain'', y_axis_measurement := Some ''Gain''\<rparr>"
  have "comparison_mode ?d = DIFFERENT_MEASUREMENTS \<and> \<not> truthy (y_axis_measurement ?d)"
    by (simp add: config_eval)
  then have "\<exists>e. post_init ?d = Inl (ValueError e)"
    using post_init_comparison_rules [of ?d] by blast
  then have a: "post_init ?d = Inl (ValueError MissingYAxisMeasurement)"
    by (simp add: config_eval)
  have "comparison_mode ?m = SAME_MEASUREMENT \<and> truthy (y_axis_measurement ?m) \<and>
      y_axis_measurement ?m \<noteq> x_axis_measurement ?m"
    by (simp add: config_eval)
  then have "\<exists>e. post_init ?m = Inl (ValueError e)"
    using post_init_comparison_rules [of ?m] by blast
  then have b: "post_init ?m = Inl (ValueError YAxisMismatch)"
    by (simp add: config_eval)
  have r: "post_init ?s = Inr ?s'"
    by (simp add: config_eval)
  have "comparison_mode ?s = SAME_MEASUREMENT"
    by simp
  then have "?s' = ?s\<lparr>y_axis_measurement := x_axis_measurement ?s\<rparr>"
    using post_init_comparison_rules [of ?s ?s'] r by blast
  then show ?thesis
    using a b r by simp
qed

section \<open>Preparation of an empty measurement list\<close>

lemmas pipeline_eval =
  prepare_data_def new_generator_def default_config_def make_groups_def truthy_def
  get_grouped_data_def group_key_def prepare_group_data_def extract_data_def
  extract_standard_data_def is_plot_def get_x_value_def blank_measurement_def Let_def

text \<open>
  Claim C5 as stated fails: on the default configuration, whose measurement list is
  empty, \<^verbatim>\<open>prepare_data\<close> raises \<^verbatim>\<open>ValueError("No measurements provided")\<close>.
\<close>

theorem prepare_data_empty_raises_counterexample:
  "prepare_data (new_generator default_config) = Inl (ValueError NoMeasurements)"
  by (simp add: prepare_data_def new_generator_def default_config_def)

text \<open>
  Claim C5, amended. \<^verbatim>\<open>prepare_data\<close> on an empty measurement list raises
  \<^verbatim>\<open>ValueError("No measurements provided")\<close>, whatever the rest of the configuration
  and of the generator; it returns no result.
\<close>

theorem prepare_data_empty_raises:
  "measurements (config g) = [] \<longrightarrow> prepare_data g = Inl (ValueError NoMeasurements)"
  by (simp add: prepare_data_def)

theorem prepare_data_empty_raises_witness:
  "measurements (config (example_generator\<lparr>config := example_config\<lparr>measurements := []\<rparr>\<rparr>)) = [] \<and>
   prepare_data (example_generator\<lparr>config := example_config\<lparr>measurements := []\<rparr>\<rparr>)
     = Inl (ValueError NoMeasurements)"
  using prepare_data_empty_raises
    [of "example_generator\<lparr>config := example_config\<lparr>measurements := []\<rparr>\<rparr>"]
  by simp

section \<open>Data that deletion keeps\<close>

lemma clear_selection_fields:
  "prepared_data (clear_selection g) = prepared_data g"
  "original_data (clear_selection g) = original_data g"
  "deleted_items (clear_selection g) = deleted_items g"
  "point_measurement_map (clear_selection g) = point_measurement_map g"
  by (simp_all add: clear_selection_def Let_def split: option.splits)

lemma delete_point_data:
  "prepared_data (state_after (delete_point g i k)) = prepared_data g"
  "original_data (state_after (delete_point g i k)) = original_data g"
  by (simp_all add: delete_point_def state_after_def Let_def clear_selection_fields
       split: option.splits sizes.splits sum.splits if_splits)

lemma delete_points_data:
  "prepared_data (delete_points g rs) = prepared_data g \<and>
   original_data (delete_points g rs) = original_data g"
  unfolding delete_points_def
  by (induction rs arbitrary: g) (auto simp: delete_point_data)

lemma prepare_data_snapshot:
  assumes "prepare_data g = Inr g'"
  shows "\<exists>p. prepared_data g' = Some p \<and> original_data g' = Some p"
  using assms by (auto simp: prepare_data_def split: if_splits sum.splits prod.splits)

lemmas deletion_eval =
  delete_points_def delete_point_def state_after_def mask_index_def drop_nth_def
  reindex_map_def reindex_step_def clear_selection_def example_generator_def
  example_items_def example_map_def new_generator_def Let_def

section \<open>Deletion\<close>

lemma map_of_dict_set: "map_of (dict_set d k v) = (map_of d)(k \<mapsto> v)"
  by (induction d k v rule: dict_set.induct) auto

lemma reindex_step_lookup:
  "map_of (reindex_step i k acc ((sid, sidx), m)) (c, j) =
     (if (sid, sidx) = (if c = i \<and> k \<le> j then (c, j + 1) else (c, j)) then Some m
      else map_of acc (c, j))"
  by (auto simp: reindex_step_def map_of_dict_set)

lemma reindex_foldl:
  assumes "distinct (map fst pm)"
  shows "map_of (foldl (reindex_step i k) acc pm) (c, j) =
     (case map_of pm (if c = i \<and> k \<le> j then (c, j + 1) else (c, j)) of
        Some v \<Rightarrow> Some v
      | None \<Rightarrow> map_of acc (c, j))"
  using assms
proof (induction pm arbitrary: acc)
  case Nil
  then show ?case by simp
next
  case (Cons x pm)
  obtain sid sidx m where x: "x = ((sid, sidx), m)"
    by (cases x) auto
  have nin: "map_of pm (sid, sidx) = None"
    using Cons.prems x by (simp add: map_of_eq_None_iff)
  have d: "distinct (map fst pm)"
    using Cons.prems by simp
  define src where "src = (if c = i \<and> k \<le> j then (c, j + 1) else (c, j))"
  have step: "map_of (reindex_step i k acc x) (c, j) =
      (if (sid, sidx) = src then Some m else map_of acc (c, j))"
    unfolding x src_def by (rule reindex_step_lookup)
  have ih: "map_of (foldl (reindex_step i k) acc (x # pm)) (c, j) =
      (case map_of pm src of Some v \<Rightarrow> Some v
       | None \<Rightarrow> map_of (reindex_step i k acc x) (c, j))"
    unfolding src_def using Cons.IH [OF d, of "reindex_step i k acc x"] by simp
  have goal: "map_of (foldl (reindex_step i k) acc (x # pm)) (c, j) =
      (case map_of (x # pm) src of Some v \<Rightarrow> Some v | None \<Rightarrow> map_of acc (c, j))"
  proof (cases "(sid, sidx) = src")
    case True
    then have n: "map_of pm src = None"
      using nin by simp
    have "map_of (x # pm) src = Some m"
      using True x by simp
    then show ?thesis
      using ih n step True by simp
  next
    case False
    then have "map_of (x # pm) src = map_of pm src"
      using x by simp
    then show ?thesis
      using ih step False by (simp split: option.splits)
  qed
  then show ?case
    unfolding src_def .
qed

lemma reindex_map_lookup:
  assumes "distinct (map fst pm)"
  shows "map_of (reindex_map i k pm) (c, j) =
           (if c = i then (if j < k then map_of pm (c, j) else map_of pm (c, j + 1))
            else map_of pm (c, j))"
  unfolding reindex_map_def reindex_foldl [OF assms]
  by (auto split: option.splits)


lemma clear_selection_item_points:
  assumes "map_of (items g) i = Some it"
  shows "\<exists>it'. map_of (items (clear_selection g)) i = Some it' \<and> points it' = points it"
  using assms
  by (auto simp: clear_selection_def Let_def map_of_dict_set split: option.splits)

lemma delete_point_valid:
  assumes it: "map_of (items g) i = Some it" and sc: "item_class it = ScatterPlotItem"
    and pts: "points it = Some pts" and k: "0 \<le> k" "k < int (length pts)"
    and sz: "\<forall>szs. original_sizes it = Some (PerPoint szs) \<longrightarrow> length szs = length pts"
  shows "\<exists>g' it'. delete_point g i k = Inr g' \<and>
           point_measurement_map g' = reindex_map i k (point_measurement_map g) \<and>
           deleted_items g' = insert (i, k) (deleted_items g) \<and>
           map_of (items g') i = Some it' \<and> points it' = Some (drop_nth (nat k) pts)"
proof -
  have ne: "pts \<noteq> []"
    using k by auto
  have mi: "mask_index (length pts) k = Some (nat k)"
    using k by (simp add: mask_index_def)
  define g1 where "g1 = g\<lparr>deleted_items := insert (i, k) (deleted_items g)\<rparr>"
  obtain item' where item': "points item' = Some (drop_nth (nat k) pts)"
    and dp: "delete_point g i k =
      (let g2 = g1\<lparr>items := dict_set (items g1) i item',
                    point_measurement_map := reindex_map i k (point_measurement_map g1)\<rparr>
       in if selected_item g2 = Some i \<and> selected_index g2 = Some k
          then Inr (clear_selection g2) else Inr g2)"
  proof (cases "original_sizes it")
    case None
    show ?thesis
      by (rule that [of "it\<lparr>points := Some (drop_nth (nat k) pts)\<rparr>"])
         (simp_all add: delete_point_def it sc pts ne mi None g1_def Let_def)
  next
    case (Some os)
    show ?thesis
    proof (cases os)
      case (Scalar v)
      show ?thesis
        by (rule that [of "it\<lparr>points := Some (drop_nth (nat k) pts), size_opt := Scalar v,
                            original_sizes := Some (Scalar v)\<rparr>"])
           (simp_all add: delete_point_def it sc pts ne mi Some Scalar g1_def Let_def)
    next
      case (PerPoint szs)
      have l: "length szs = length pts"
        using sz Some PerPoint by simp
      show ?thesis
        by (rule that [of "it\<lparr>points := Some (drop_nth (nat k) pts),
                            size_opt := PerPoint (drop_nth (nat k) szs),
                            original_sizes := Some (PerPoint (drop_nth (nat k) szs))\<rparr>"])
           (simp_all add: delete_point_def it sc pts ne mi Some PerPoint l g1_def Let_def)
    qed
  qed
  define g2 where "g2 = g1\<lparr>items := dict_set (items g1) i item',
                    point_measurement_map := reindex_map i k (point_measurement_map g1)\<rparr>"
  have g2i: "map_of (items g2) i = Some item'"
    by (simp add: g2_def map_of_dict_set)
  have g2f: "point_measurement_map g2 = reindex_map i k (point_measurement_map g)"
    "deleted_items g2 = insert (i, k) (deleted_items g)"
    by (simp_all add: g2_def g1_def)
  show ?thesis
  proof (cases "selected_item g2 = Some i \<and> selected_index g2 = Some k")
    case True
    then have r: "delete_point g i k = Inr (clear_selection g2)"
      using dp by (simp add: g2_def Let_def)
    obtain it' where "map_of (items (clear_selection g2)) i = Some it'" "points it' = points item'"
      using clear_selection_item_points [OF g2i] by blast
    then show ?thesis
      using r g2f item' by (simp add: clear_selection_fields)
  next
    case False
    then have r: "delete_point g i k = Inr g2"
      using dp by (auto simp: g2_def Let_def)
    then show ?thesis
      using g2i g2f item' by simp
  qed
qed


text \<open>
  Claim C4. Deleting the point at a valid index \<open>k\<close> (from 0 to the number of points
  minus one) of a scatter collection \<open>i\<close> returns, removes that point from the
  coordinate arrays of the collection, and re-indexes the point-to-record map: in
  collection \<open>i\<close> an index below \<open>k\<close> keeps its record and an index \<open>j\<close> from \<open>k\<close> on
  gets the record that index \<open>j + 1\<close> had (every entry above \<open>k\<close> moves down by one and
  the entry of \<open>k\<close> is gone); the entries of every other collection are unchanged.
  The map is a dictionary (distinct keys); a per-point size array has one size per point.
\<close>

theorem delete_point_reindexes:
  assumes "map_of (items g) i = Some it" and "item_class it = ScatterPlotItem"
    and "points it = Some pts" and "0 \<le> k" and "k < int (length pts)"
    and "\<forall>szs. original_sizes it = Some (PerPoint szs) \<longrightarrow> length szs = length pts"
    and "distinct (map fst (point_measurement_map g))"
  shows "\<exists>g' it'. delete_point g i k = Inr g' \<and>
           map_of (items g') i = Some it' \<and> points it' = Some (drop_nth (nat k) pts) \<and>
           (\<forall>c j. map_of (point_measurement_map g') (c, j) =
              (if c = i then
                 (if j < k then map_of (point_measurement_map g) (c, j)
                  else map_of (point_measurement_map g) (c, j + 1))
               else map_of (point_measurement_map g) (c, j)))"
proof -
  obtain g' it' where r: "delete_point g i k = Inr g'"
    and m: "point_measurement_map g' = reindex_map i k (point_measurement_map g)"
    and i: "map_of (items g') i = Some it'" "points it' = Some (drop_nth (nat k) pts)"
    using delete_point_valid [OF assms(1-6)] by blast
  show ?thesis
    using r i by (simp add: m reindex_map_lookup [OF assms(7)])
qed

theorem delete_point_reindexes_witness:
  "\<exists>g'. delete_point example_generator 1 2 = Inr g' \<and>
     map_of (point_measurement_map g') (1, 0) = Some (blank_measurement 1 10) \<and>
     map_of (point_measurement_map g') (1, 1) = Some (blank_measurement 2 11) \<and>
     map_of (point_measurement_map g') (1, 2) = Some (blank_measurement 4 13) \<and>
     map_of (point_measurement_map g') (1, 3) = Some (blank_measurement 5 14) \<and>
     map_of (point_measurement_map g') (1, 4) = None \<and>
     map_of (point_measurement_map g') (2, 0) = Some (blank_measurement 6 20) \<and>
     map_of (point_measurement_map g') (2, 1) = Some (blank_measurement 7 21)"
proof -
  let ?pts = "[(0, Some 10), (1, Some 11), (2, Some 12), (3, Some 13), (4, Some 14)]
                :: (real \<times> real option) list"
  let ?it = "\<lparr>item_class = ScatterPlotItem, points = Some ?pts,
              size_opt = Scalar 15, original_sizes = None\<rparr>"
  have a: "map_of (items example_generator) 1 = Some ?it"
    by (simp add: example_generator_def example_items_def)
  have b: "item_class ?it = ScatterPlotItem" and c: "points ?it = Some ?pts"
    and d: "(0::int) \<le> 2" and e: "2 < int (length ?pts)"
    and f: "\<forall>szs. original_sizes ?it = Some (PerPoint szs) \<longrightarrow> length szs = length ?pts"
    by simp_all
  have h: "distinct (map fst (point_measurement_map example_generator))"
    by (simp add: example_generator_def example_map_def)
  obtain g' where r: "delete_point example_generator 1 2 = Inr g'"
    and m: "\<forall>c j. map_of (point_measurement_map g') (c, j) =
              (if c = 1 then
                 (if j < 2 then map_of (point_measurement_map example_generator) (c, j)
                  else map_of (point_measurement_map example_generator) (c, j + 1))
               else map_of (point_measurement_map example_generator) (c, j))"
    using delete_point_reindexes [OF a b c d e f h] by blast
  have "map_of (point_measurement_map g') (1, 0) = Some (blank_measurement 1 10)"
    and "map_of (point_measurement_map g') (1, 1) = Some (blank_measurement 2 11)"
    and "map_of (point_measurement_map g') (1, 2) = Some (blank_measurement 4 13)"
    and "map_of (point_measurement_map g') (1, 3) = Some (blank_measurement 5 14)"
    and "map_of (point_measurement_map g') (1, 4) = None"
    and "map_of (point_measurement_map g') (2, 0) = Some (blank_measurement 6 20)"
    and "map_of (point_measurement_map g') (2, 1) = Some (blank_measurement 7 21)"
    by (simp_all add: m example_generator_def example_map_def)
  then show ?thesis
    using r by blast
qed

text \<open>
  Claim C9 as stated fails: on the five-point scatter collection 1 of the example, a
  deletion request for index 7 raises \<^verbatim>\<open>IndexError\<close>, and the point id is in the set
  of deleted point ids by then.
\<close>

theorem delete_point_out_of_range_counterexample:
  "delete_point example_generator 1 7 =
     Inl (IndexError, example_generator\<lparr>deleted_items := {(1, 7)}\<rparr>)"
  by (simp add: deletion_eval)

text \<open>
  Claim C9, amended. Point deletion is guarded against an item that is no scatter
  collection (it returns and changes nothing) and against a scatter collection without
  points (it returns, and has only added the point id to the set of deleted point
  ids). It has no guard on the index: on a scatter collection of \<open>n > 0\<close> points an
  index below \<open>-n\<close> or from \<open>n\<close> on raises \<^verbatim>\<open>IndexError\<close>; the coordinate arrays
  and the point-to-record map are unchanged, the point id has been added to the set of
  deleted point ids.
\<close>

theorem delete_point_guards:
  "(map_of (items g) i = Some it \<and> item_class it \<noteq> ScatterPlotItem \<longrightarrow>
      delete_point g i k = Inr g) \<and>
   (map_of (items g) i = Some it \<and> item_class it = ScatterPlotItem \<and>
    (points it = None \<or> points it = Some []) \<longrightarrow>
      delete_point g i k = Inr (g\<lparr>deleted_items := insert (i, k) (deleted_items g)\<rparr>)) \<and>
   (map_of (items g) i = Some it \<and> item_class it = ScatterPlotItem \<and>
    points it = Some pts \<and> pts \<noteq> [] \<and> (k < - int (length pts) \<or> int (length pts) \<le> k) \<longrightarrow>
      delete_point g i k =
        Inl (IndexError, g\<lparr>deleted_items := insert (i, k) (deleted_items g)\<rparr>))"
  by (auto simp: delete_point_def mask_index_def Let_def)

theorem delete_point_guards_witness:
  "delete_point example_generator 3 0 = Inr example_generator \<and>
   delete_point example_generator 4 0 = Inr (example_generator\<lparr>deleted_items := {(4, 0)}\<rparr>) \<and>
   delete_point example_generator 2 2 =
     Inl (IndexError, example_generator\<lparr>deleted_items := {(2, 2)}\<rparr>) \<and>
   delete_point example_generator 2 (- 3) =
     Inl (IndexError, example_generator\<lparr>deleted_items := {(2, - 3)}\<rparr>)"
proof -
  let ?bar = "\<lparr>item_class = BarGraphItem, points = None,
               size_opt = Scalar 15, original_sizes = None\<rparr>"
  let ?empty = "\<lparr>item_class = ScatterPlotItem, points = Some [],
               size_opt = Scalar 15, original_sizes = None\<rparr>"
  let ?pts = "[(6, Some 20), (7, Some 21)] :: (real \<times> real option) list"
  let ?two = "\<lparr>item_class = ScatterPlotItem, points = Some ?pts,
               size_opt = Scalar 15, original_sizes = None\<rparr>"
  have d: "deleted_items example_generator = {}"
    by (simp add: example_generator_def new_generator_def)
  have "map_of (items example_generator) 3 = Some ?bar \<and> item_class ?bar \<noteq> ScatterPlotItem"
    by (simp add: example_generator_def example_items_def)
  then have a: "delete_point example_generator 3 0 = Inr example_generator"
    using delete_point_guards [of example_generator 3 ?bar 0] by blast
  have "map_of (items example_generator) 4 = Some ?empty \<and> item_class ?empty = ScatterPlotItem \<and>
      (points ?empty = None \<or> points ?empty = Some [])"
    by (simp add: example_generator_def example_items_def)
  then have b: "delete_point example_generator 4 0 =
      Inr (example_generator\<lparr>deleted_items := insert (4, 0) (deleted_items example_generator)\<rparr>)"
    using delete_point_guards [of example_generator 4 ?empty 0] by blast
  have t: "map_of (items example_generator) 2 = Some ?two \<and> item_class ?two = ScatterPlotItem \<and>
      points ?two = Some ?pts \<and> ?pts \<noteq> []"
    by (simp add: example_generator_def example_items_def)
  have "(2::int) < - int (length ?pts) \<or> int (length ?pts) \<le> 2"
    by simp
  then have c: "delete_point example_generator 2 2 =
      Inl (IndexError, example_generator\<lparr>deleted_items := insert (2, 2) (deleted_items example_generator)\<rparr>)"
    using delete_point_guards [of example_generator 2 ?two 2 ?pts] t by blast
  have "(- 3::int) < - int (length ?pts) \<or> int (length ?pts) \<le> - 3"
    by simp
  then have e: "delete_point example_generator 2 (- 3) =
      Inl (IndexError, example_generator\<lparr>deleted_items := insert (2, - 3) (deleted_items example_generator)\<rparr>)"
    using delete_point_guards [of example_generator 2 ?two "- 3" ?pts] t by blast
  show ?thesis
    using a b c e by (simp add: d)
qed

section \<open>Rendering and undo\<close>

lemma then_do_simps [simp]:
  "then_do (Inl e) f = Inl e"
  "then_do (Inr s) f = f s"
  by (simp_all add: then_do_def)

lemma store_points_ok:
  "\<forall>j \<in> set idxs. j < length (measurement_indices gd) \<and>
       measurement_indices gd ! j < length (group_measurements gd) \<Longrightarrow>
   \<exists>pmap'. store_points sid gd idxs pmap = Inr pmap' \<and>
     (\<forall>k. map_of pmap' k =
        (if fst k = sid \<and> (\<exists>j \<in> set idxs. snd k = int j)
         then Some (group_measurements gd ! (measurement_indices gd ! nat (snd k)))
         else map_of pmap k))"
proof (induction idxs arbitrary: pmap)
  case Nil
  then show ?case by simp
next
  case (Cons idx rest)
  define pm1 where
    "pm1 = dict_set pmap (sid, int idx) (group_measurements gd ! (measurement_indices gd ! idx))"
  have step: "store_points sid gd (idx # rest) pmap = store_points sid gd rest pm1"
    using Cons.prems by (simp add: pm1_def Let_def)
  obtain pmap' where r: "store_points sid gd rest pm1 = Inr pmap'"
    and l: "\<forall>k. map_of pmap' k =
        (if fst k = sid \<and> (\<exists>j \<in> set rest. snd k = int j)
         then Some (group_measurements gd ! (measurement_indices gd ! nat (snd k)))
         else map_of pm1 k)"
    using Cons.IH [of pm1] Cons.prems by auto
  have "map_of pmap' k =
        (if fst k = sid \<and> (\<exists>j \<in> set (idx # rest). snd k = int j)
         then Some (group_measurements gd ! (measurement_indices gd ! nat (snd k)))
         else map_of pmap k)" for k
    using l by (cases k) (auto simp: pm1_def map_of_dict_set)
  then show ?case
    using step r by simp
qed

lemma store_points_bad:
  "\<not> (\<forall>j \<in> set idxs. j < length (measurement_indices gd) \<and>
       measurement_indices gd ! j < length (group_measurements gd)) \<Longrightarrow>
   store_points sid gd idxs pmap = Inl IndexError"
  by (induction idxs arbitrary: pmap) (auto simp: Let_def)

lemma add_item_fields:
  "config (add_item a it g) = config g"
  "prepared_data (add_item a it g) = prepared_data g"
  "original_data (add_item a it g) = original_data g"
  "deleted_items (add_item a it g) = deleted_items g"
  "point_measurement_map (add_item a it g) = point_measurement_map g"
  "items (add_item a it g) = items g @ [(a (items g), it)]"
  by (simp_all add: add_item_def)

lemma plain_item_class: "item_class (plain_item c) = c"
  by (simp add: plain_item_def)

lemma point_records_add_plain:
  assumes "item_class it \<noteq> ScatterPlotItem"
  shows "point_records (add_item a it g) = point_records g"
  using assms by (simp add: point_records_def scatter_collections_def add_item_def)

lemma same_plot_add_item:
  assumes "same_plot g h" and "\<And>store. a store \<notin> fst ` set store"
    and "\<And>store. a' store \<notin> fst ` set store" and "item_class it \<noteq> ScatterPlotItem"
  shows "same_plot (add_item a it g) (add_item a' it h)"
  using assms(1) assms(2) [of "items g"] assms(3) [of "items h"]
  by (simp add: same_plot_def point_records_add_plain [OF assms(4)] add_item_fields)

lemma point_records_scatter:
  assumes fr: "sid \<notin> fst ` set (items g)"
    and l: "\<forall>k. map_of pmap' k =
        (if fst k = sid \<and> (\<exists>j \<in> set [0 ..< length pts]. snd k = int j)
         then Some (f (nat (snd k)))
         else map_of (point_measurement_map g) k)"
  shows "point_records (g\<lparr>items := items g @
             [(sid, \<lparr>item_class = ScatterPlotItem, points = Some pts,
                     size_opt = sz, original_sizes = None\<rparr>)],
           point_measurement_map := pmap'\<rparr>)
         = point_records g @ [map (\<lambda>j. Some (f j)) [0 ..< length pts]]"
proof -
  have old: "map_of pmap' (i, int j) = map_of (point_measurement_map g) (i, int j)"
    if "(i, item) \<in> set (items g)" for i item j
  proof -
    have "i \<noteq> sid"
      using that fr by force
    then show ?thesis
      using l by simp
  qed
  have new: "map_of pmap' (sid, int j) = Some (f j)" if "j < length pts" for j
    using l that by simp
  show ?thesis
    by (auto simp: point_records_def scatter_collections_def point_count_def old new)
qed

lemma rel_sum_same_plot_Inl: "rel_sum (=) same_plot (Inl e) (Inl e)"
  by simp

lemma same_plot_scatter_group:
  assumes sp: "same_plot g h" and fa: "\<And>store. a store \<notin> fst ` set store"
    and fa': "\<And>store. a' store \<notin> fst ` set store"
  shows "rel_sum (=) same_plot (plot_scatter_group a gd sz g) (plot_scatter_group a' gd sz h)"
proof (cases "\<forall>j \<in> set [0 ..< length (zip (map num_real (x_data gd)) (y_data gd))].
          j < length (measurement_indices gd) \<and>
          measurement_indices gd ! j < length (group_measurements gd)")
  case False
  then show ?thesis
    by (simp add: plot_scatter_group_def Let_def store_points_bad del: set_upt)
next
  case True
  define pts where "pts = zip (map num_real (x_data gd)) (y_data gd)"
  define f where "f = (\<lambda>j. group_measurements gd ! (measurement_indices gd ! j))"
  have v: "\<forall>j \<in> set [0 ..< length pts]. j < length (measurement_indices gd) \<and>
          measurement_indices gd ! j < length (group_measurements gd)"
    using True by (simp add: pts_def)
  obtain pg where pg: "store_points (a (items g)) gd [0 ..< length pts] (point_measurement_map g) = Inr pg"
    and lg: "\<forall>k. map_of pg k =
        (if fst k = a (items g) \<and> (\<exists>j \<in> set [0 ..< length pts]. snd k = int j)
         then Some (f (nat (snd k))) else map_of (point_measurement_map g) k)"
    using store_points_ok [OF v, of "a (items g)" "point_measurement_map g"] unfolding f_def by blast
  obtain ph where ph: "store_points (a' (items h)) gd [0 ..< length pts] (point_measurement_map h) = Inr ph"
    and lh: "\<forall>k. map_of ph k =
        (if fst k = a' (items h) \<and> (\<exists>j \<in> set [0 ..< length pts]. snd k = int j)
         then Some (f (nat (snd k))) else map_of (point_measurement_map h) k)"
    using store_points_ok [OF v, of "a' (items h)" "point_measurement_map h"] unfolding f_def by blast
  define it where "it = \<lparr>item_class = ScatterPlotItem, points = Some pts,
                     size_opt = Scalar sz, original_sizes = None\<rparr>"
  define g' where "g' = g\<lparr>items := items g @ [(a (items g), it)], point_measurement_map := pg\<rparr>"
  define h' where "h' = h\<lparr>items := items h @ [(a' (items h), it)], point_measurement_map := ph\<rparr>"
  have rg: "plot_scatter_group a gd sz g = Inr g'"
    using pg by (simp add: plot_scatter_group_def Let_def add_item_def pts_def [symmetric]
        it_def g'_def)
  have rh: "plot_scatter_group a' gd sz h = Inr h'"
    using ph by (simp add: plot_scatter_group_def Let_def add_item_def pts_def [symmetric]
        it_def h'_def)
  have prg: "point_records g' = point_records g @ [map (\<lambda>j. Some (f j)) [0 ..< length pts]]"
    unfolding g'_def it_def using point_records_scatter [OF fa lg] .
  have prh: "point_records h' = point_records h @ [map (\<lambda>j. Some (f j)) [0 ..< length pts]]"
    unfolding h'_def it_def using point_records_scatter [OF fa' lh] .
  have "same_plot g' h'"
    using sp fa [of "items g"] fa' [of "items h"]
    by (simp add: same_plot_def prg prh) (simp add: g'_def h'_def)
  then show ?thesis
    by (simp add: rg rh)
qed

lemma for_each_same_plot:
  assumes "\<And>x g h. x \<in> set xs \<Longrightarrow> same_plot g h \<Longrightarrow> rel_sum (=) same_plot (body x g) (body' x h)"
    and "same_plot g h"
  shows "rel_sum (=) same_plot (for_each body xs g) (for_each body' xs h)"
  using assms
proof (induction xs arbitrary: g h)
  case Nil
  then show ?case by simp
next
  case (Cons x xs)
  have b: "rel_sum (=) same_plot (body x g) (body' x h)"
    using Cons.prems by simp
  show ?case
  proof (cases "body x g")
    case (Inl e)
    then show ?thesis
      using b by (cases "body' x h") simp_all
  next
    case (Inr g1)
    then obtain h1 where h1: "body' x h = Inr h1" and s: "same_plot g1 h1"
      using b by (cases "body' x h") simp_all
    show ?thesis
      using Cons.IH [OF _ s] Cons.prems(1) by (simp add: Inr h1)
  qed
qed

lemma then_do_same_plot:
  assumes "rel_sum (=) same_plot r r'"
    and "\<And>g h. same_plot g h \<Longrightarrow> rel_sum (=) same_plot (f g) (f' h)"
  shows "rel_sum (=) same_plot (then_do r f) (then_do r' f')"
  using assms by (cases r; cases r') simp_all

lemma for_each_invariant:
  assumes "\<And>x s s'. x \<in> set xs \<Longrightarrow> P s \<Longrightarrow> body x s = Inr s' \<Longrightarrow> P s'"
    and "P s" and "for_each body xs s = Inr s'"
  shows "P s'"
  using assms
proof (induction xs arbitrary: s)
  case Nil
  then show ?case by simp
next
  case (Cons x xs)
  obtain s1 where s1: "body x s = Inr s1" and r: "for_each body xs s1 = Inr s'"
    using Cons.prems(3) by (cases "body x s") simp_all
  have p1: "P s1"
    using Cons.prems(1) [of x s s1] Cons.prems(2) s1 by simp
  have st: "P t'" if "y \<in> set xs" "P t" "body y t = Inr t'" for y t t'
    using Cons.prems(1) [of y t t'] that by simp
  show ?case
    using Cons.IH [OF st p1 r] .
qed

lemma same_data_refl: "same_data g g"
  by (simp add: same_data_def)

lemma same_data_trans: "same_data g h \<Longrightarrow> same_data h k \<Longrightarrow> same_data g k"
  by (simp add: same_data_def)

lemma same_data_add_item: "same_data g h \<Longrightarrow> same_data g (add_item a it h)"
  by (simp add: same_data_def add_item_def)

lemma for_each_same_data:
  assumes "\<And>x s s'. x \<in> set xs \<Longrightarrow> body x s = Inr s' \<Longrightarrow> same_data s s'"
    and "for_each body xs g = Inr g'"
  shows "same_data g g'"
proof (rule for_each_invariant [where P = "same_data g" and body = body and xs = xs and s = g])
  show "same_data g s'" if "x \<in> set xs" "same_data g s" "body x s = Inr s'" for x s s'
    using same_data_trans [OF that(2) assms(1) [OF that(1,3)]] .
  show "same_data g g"
    by (rule same_data_refl)
  show "for_each body xs g = Inr g'"
    by (rule assms(2))
qed

lemma then_do_same_data:
  assumes "then_do r f = Inr g'" and "\<And>g1. r = Inr g1 \<Longrightarrow> same_data g g1"
    and "\<And>g1 g2. f g1 = Inr g2 \<Longrightarrow> same_data g1 g2"
  shows "same_data g g'"
proof -
  obtain g1 where r: "r = Inr g1" and f: "f g1 = Inr g'"
    using assms(1) by (cases r) simp_all
  show ?thesis
    using same_data_trans [OF assms(2) [OF r] assms(3) [OF f]] .
qed

lemma plot_scatter_group_same_data:
  "plot_scatter_group a gd sz g = Inr g' \<Longrightarrow> same_data g g'"
  by (auto simp: plot_scatter_group_def Let_def add_item_def same_data_def split: sum.splits)

lemma plot_scatter_loop_same_data:
  assumes "for_each (\<lambda>(group_name, gd) g'.
                  if x_data gd \<noteq> [] then plot_scatter_group a gd sz g' else Inr g')
               gs g = Inr g'"
  shows "same_data g g'"
proof (rule for_each_same_data [OF _ assms], goal_cases)
  case (1 x s s')
  obtain n gd where x: "x = (n, gd)"
    by (cases x) auto
  show ?case
    using 1(2) by (auto simp: x split: if_splits dest: plot_scatter_group_same_data
        simp: same_data_refl)
qed

lemma plot_scatter_same_data:
  "plot_scatter a g = Inr g' \<Longrightarrow> same_data g g'"
  by (auto simp: plot_scatter_def Let_def split: option.splits if_splits
      dest: plot_scatter_loop_same_data)

lemma plot_overlaid_plots_same_data:
  assumes "plot_overlaid_plots a ms g = Inr g'"
  shows "same_data g g'"
proof (rule for_each_same_data [OF _ assms [unfolded plot_overlaid_plots_def]], goal_cases)
  case (1 x s s')
  show ?case
    using 1(2) by (auto split: option.splits if_splits simp: same_data_refl same_data_add_item)
qed

lemma plot_line_same_data:
  assumes "plot_line a g = Inr g'"
  shows "same_data g g'"
proof -
  obtain p where p: "prepared_data g = Some p"
    using assms by (cases "prepared_data g") (simp_all add: plot_line_def)
  define overlay where "overlay = (\<lambda>(gd :: group_data) g'.
                 if has_plots gd \<and> auto_overlay_plots (config g)
                 then plot_overlaid_plots a (plot_measurements gd) g' else Inr g')"
  have ov: "same_data s s'" if "overlay gd s = Inr s'" for gd s s'
    using that by (auto simp: overlay_def same_data_refl split: if_splits
        dest: plot_overlaid_plots_same_data)
  have r: "for_each
               (\<lambda>(group_name, gd) g'.
                  if x_data gd \<noteq> [] \<and> y_data gd \<noteq> [] then
                    (let x_filtered =
                       (if remove_outliers (config g)
                        then map fst (filter (\<lambda>(x, out). \<not> out) (zip (x_data gd) (is_outlier gd)))
                        else x_data gd)
                     in if x_filtered = [] then Inr g'
                        else overlay gd (add_item a (plain_item PlotDataItem) g'))
                  else overlay gd g')
               (groups p) g = Inr g'"
    using assms unfolding plot_line_def Let_def overlay_def by (simp add: p)
  show ?thesis
  proof (rule for_each_same_data [OF _ r], goal_cases)
    case (1 x s s')
    obtain n gd where x: "x = (n, gd)"
      by (cases x) auto
    have "same_data s s' \<or> overlay gd s = Inr s' \<or>
            overlay gd (add_item a (plain_item PlotDataItem) s) = Inr s'"
      using 1(2) by (auto simp: x Let_def same_data_refl split: if_splits)
    then show ?case
      using ov [of gd s s'] ov [of gd "add_item a (plain_item PlotDataItem) s" s']
        same_data_trans [OF same_data_add_item [OF same_data_refl]]
      by blast
  qed
qed

lemma plot_histogram_same_data:
  "plot_histogram a g = Inr g' \<Longrightarrow> same_data g g'"
  by (auto simp: plot_histogram_def Let_def same_data_refl same_data_add_item
      split: option.splits if_splits)

lemma generator_plot_data_same_data:
  "generator_plot_data a g = Inr g' \<Longrightarrow> same_data g g'"
  by (auto simp: generator_plot_data_def split: GraphType.splits
      dest: plot_scatter_same_data plot_line_same_data plot_histogram_same_data)

lemma add_spec_lines_same_data:
  assumes "add_spec_lines a p g = Inr g'"
  shows "same_data g g'"
proof (rule for_each_same_data [OF _ assms [unfolded add_spec_lines_def]], goal_cases)
  case (1 x s s')
  show ?case
    using 1(2) by (auto simp: same_data_refl same_data_add_item)
qed

lemma add_grouping_boxes_same_data:
  assumes "add_grouping_boxes a p g = Inr g'"
  shows "same_data g g'"
proof -
  have "g' = g \<or> for_each
                  (\<lambda>(group_name, gd) g'.
                     if x_data gd = [] then Inr g'
                     else Inr (add_item a (plain_item TextItem)
                                 (add_item a (plain_item PlotDataItem) g')))
                  (groups p) g = Inr g'"
    using assms by (auto simp: add_grouping_boxes_def Let_def split: if_splits)
  then show ?thesis
  proof
    assume "g' = g"
    then show ?thesis
      by (simp add: same_data_refl)
  next
    assume r: "for_each
                  (\<lambda>(group_name, gd) g'.
                     if x_data gd = [] then Inr g'
                     else Inr (add_item a (plain_item TextItem)
                                 (add_item a (plain_item PlotDataItem) g')))
                  (groups p) g = Inr g'"
    show ?thesis
    proof (rule for_each_same_data [OF _ r], goal_cases)
      case (1 x s s')
      obtain n gd where x: "x = (n, gd)"
        by (cases x) auto
      show ?case
        using 1(2) by (auto simp: x same_data_refl same_data_add_item split: if_splits)
    qed
  qed
qed

lemma add_comparison_reference_line_same_data:
  "add_comparison_reference_line a p g = Inr g' \<Longrightarrow> same_data g g'"
  by (auto simp: add_comparison_reference_line_def same_data_refl same_data_add_item
      split: if_splits)

lemma apply_styling_same_data:
  assumes "apply_styling a g = Inr g'"
  shows "same_data g g'"
proof -
  obtain p where p: "prepared_data g = Some p"
    using assms by (cases "prepared_data g") (simp_all add: apply_styling_def)
  define s1 where "s1 = (if show_spec_lines (config g) then add_spec_lines a p g else Inr g)"
  define f2 where "f2 = (\<lambda>g1. if enable_grouping_boxes (config g) \<and> graph_type (config g) = SCATTER
                then add_grouping_boxes a p g1 else Inr g1)"
  define f3 where "f3 = (\<lambda>g2. if comparison_mode (config g) \<noteq> NONE \<and> show_comparison_line (config g)
                      then add_comparison_reference_line a p g2 else Inr g2)"
  have r: "then_do s1 (\<lambda>g1. then_do (f2 g1) f3) = Inr g'"
    using assms p by (simp add: apply_styling_def Let_def s1_def f2_def f3_def)
  then obtain g1 where g1: "s1 = Inr g1" and r2: "then_do (f2 g1) f3 = Inr g'"
    by (cases s1) simp_all
  then obtain g2 where g2: "f2 g1 = Inr g2" and g3: "f3 g2 = Inr g'"
    by (cases "f2 g1") simp_all
  have "same_data g g1"
    using g1 by (auto simp: s1_def same_data_refl split: if_splits dest: add_spec_lines_same_data)
  moreover have "same_data g1 g2"
    using g2 by (auto simp: f2_def same_data_refl split: if_splits
        dest: add_grouping_boxes_same_data)
  moreover have "same_data g2 g'"
    using g3 by (auto simp: f3_def same_data_refl split: if_splits
        dest: add_comparison_reference_line_same_data)
  ultimately show ?thesis
    using same_data_trans by blast
qed

lemma setup_interactivity_same_data: "same_data g (setup_interactivity a g)"
  by (simp add: setup_interactivity_def add_crosshair_def setup_tooltip_def add_item_def
      same_data_def Let_def)

lemma clear_selection_config: "config (clear_selection g) = config g"
  by (simp add: clear_selection_def Let_def split: option.splits)

lemma delete_point_config: "config (state_after (delete_point g i k)) = config g"
  by (simp add: delete_point_def state_after_def Let_def clear_selection_config
       split: option.splits sizes.splits sum.splits if_splits)

lemma delete_points_config: "config (delete_points g rs) = config g"
  unfolding delete_points_def
  by (induction rs arbitrary: g) (auto simp: delete_point_config)

lemma same_plot_Inr: "same_plot g h \<Longrightarrow> rel_sum (=) same_plot (Inr g) (Inr h)"
  by simp

lemma same_plot_if:
  "(c \<Longrightarrow> rel_sum (=) same_plot x x') \<Longrightarrow> (\<not> c \<Longrightarrow> rel_sum (=) same_plot y y') \<Longrightarrow>
     rel_sum (=) same_plot (if c then x else y) (if c then x' else y')"
  by simp

lemma same_plot_fields:
  "same_plot g h \<Longrightarrow> config g = config h"
  "same_plot g h \<Longrightarrow> prepared_data g = prepared_data h"
  by (simp_all add: same_plot_def)

lemma plot_scatter_loop_sim:
  assumes fa: "\<And>store. a store \<notin> fst ` set store"
    and fa': "\<And>store. a' store \<notin> fst ` set store" and sp: "same_plot g h"
  shows "rel_sum (=) same_plot
           (for_each (\<lambda>(group_name, gd) g'.
                  if x_data gd \<noteq> [] then plot_scatter_group a gd sz g' else Inr g') gs g)
           (for_each (\<lambda>(group_name, gd) g'.
                  if x_data gd \<noteq> [] then plot_scatter_group a' gd sz g' else Inr g') gs h)"
proof (rule for_each_same_plot [OF _ sp], goal_cases)
  case (1 x s t)
  obtain n gd where x: "x = (n, gd)"
    by (cases x) auto
  show ?case
    unfolding x prod.case
    by (intro same_plot_if same_plot_scatter_group [OF 1(2) fa fa'] same_plot_Inr 1(2))
qed

lemma plot_scatter_sim:
  assumes fa: "\<And>store. a store \<notin> fst ` set store"
    and fa': "\<And>store. a' store \<notin> fst ` set store" and sp: "same_plot g h"
  shows "rel_sum (=) same_plot (plot_scatter a g) (plot_scatter a' h)"
proof (cases "prepared_data h")
  case None
  then show ?thesis
    using same_plot_fields [OF sp] by (simp add: plot_scatter_def)
next
  case (Some p)
  have pg: "prepared_data g = Some p"
    using same_plot_fields(2) [OF sp] Some by simp
  show ?thesis
    unfolding plot_scatter_def Let_def pg Some same_plot_fields(1) [OF sp] option.case
    by (rule plot_scatter_loop_sim [OF fa fa' sp])
qed

lemma plot_overlaid_plots_sim:
  assumes fa: "\<And>store. a store \<notin> fst ` set store"
    and fa': "\<And>store. a' store \<notin> fst ` set store" and sp: "same_plot g h"
  shows "rel_sum (=) same_plot (plot_overlaid_plots a ms g) (plot_overlaid_plots a' ms h)"
  unfolding plot_overlaid_plots_def
proof (rule for_each_same_plot [OF _ sp], goal_cases)
  case (1 x s t)
  have "same_plot (add_item a (plain_item PlotDataItem) s) (add_item a' (plain_item PlotDataItem) t)"
    using same_plot_add_item [OF 1(2) fa fa'] by (simp add: plain_item_class)
  then show ?case
    using 1(2) by (simp split: option.splits)
qed

lemma plot_line_sim:
  assumes fa: "\<And>store. a store \<notin> fst ` set store"
    and fa': "\<And>store. a' store \<notin> fst ` set store" and sp: "same_plot g h"
  shows "rel_sum (=) same_plot (plot_line a g) (plot_line a' h)"
proof (cases "prepared_data h")
  case None
  then show ?thesis
    using same_plot_fields [OF sp] by (simp add: plot_line_def)
next
  case (Some p)
  have pg: "prepared_data g = Some p"
    using same_plot_fields(2) [OF sp] Some by simp
  have line: "same_plot (add_item a (plain_item PlotDataItem) s) (add_item a' (plain_item PlotDataItem) t)"
    if "same_plot s t" for s t
    using same_plot_add_item [OF that fa fa'] by (simp add: plain_item_class)
  show ?thesis
    unfolding plot_line_def Let_def pg Some same_plot_fields(1) [OF sp] option.case
  proof (rule for_each_same_plot [OF _ sp], goal_cases)
    case (1 x s t)
    obtain n gd where x: "x = (n, gd)"
      by (cases x) auto
    show ?case
      unfolding x prod.case
      by (intro same_plot_if plot_overlaid_plots_sim [OF fa fa'] same_plot_Inr line 1(2))
  qed
qed

lemma plot_histogram_sim:
  assumes fa: "\<And>store. a store \<notin> fst ` set store"
    and fa': "\<And>store. a' store \<notin> fst ` set store" and sp: "same_plot g h"
  shows "rel_sum (=) same_plot (plot_histogram a g) (plot_histogram a' h)"
proof (cases "prepared_data h")
  case None
  then show ?thesis
    using same_plot_fields [OF sp] by (simp add: plot_histogram_def)
next
  case (Some p)
  have pg: "prepared_data g = Some p"
    using same_plot_fields(2) [OF sp] Some by simp
  have bar: "same_plot (add_item a (plain_item BarGraphItem) g) (add_item a' (plain_item BarGraphItem) h)"
    using same_plot_add_item [OF sp fa fa'] by (simp add: plain_item_class)
  show ?thesis
    unfolding plot_histogram_def Let_def pg Some same_plot_fields(1) [OF sp] option.case
    by (intro same_plot_if same_plot_Inr bar sp) simp
qed

lemma generator_plot_data_sim:
  assumes fa: "\<And>store. a store \<notin> fst ` set store"
    and fa': "\<And>store. a' store \<notin> fst ` set store" and sp: "same_plot g h"
  shows "rel_sum (=) same_plot (generator_plot_data a g) (generator_plot_data a' h)"
  unfolding generator_plot_data_def same_plot_fields(1) [OF sp]
  using plot_scatter_sim [OF fa fa' sp] plot_line_sim [OF fa fa' sp]
    plot_histogram_sim [OF fa fa' sp]
  by (cases "graph_type (config h)") simp_all

lemma add_spec_lines_sim:
  assumes fa: "\<And>store. a store \<notin> fst ` set store"
    and fa': "\<And>store. a' store \<notin> fst ` set store" and sp: "same_plot g h"
  shows "rel_sum (=) same_plot (add_spec_lines a p g) (add_spec_lines a' p h)"
  unfolding add_spec_lines_def
proof (rule for_each_same_plot [OF _ sp], goal_cases)
  case (1 x s t)
  have "same_plot (add_item a (plain_item InfiniteLine) s) (add_item a' (plain_item InfiniteLine) t)"
    using same_plot_add_item [OF 1(2) fa fa'] by (simp add: plain_item_class)
  then show ?case
    by simp
qed

lemma add_grouping_boxes_sim:
  assumes fa: "\<And>store. a store \<notin> fst ` set store"
    and fa': "\<And>store. a' store \<notin> fst ` set store" and sp: "same_plot g h"
  shows "rel_sum (=) same_plot (add_grouping_boxes a p g) (add_grouping_boxes a' p h)"
proof -
  have box: "same_plot (add_item a (plain_item TextItem) (add_item a (plain_item PlotDataItem) s))
               (add_item a' (plain_item TextItem) (add_item a' (plain_item PlotDataItem) t))"
    if st: "same_plot s t" for s t
  proof -
    have "same_plot (add_item a (plain_item PlotDataItem) s) (add_item a' (plain_item PlotDataItem) t)"
      using same_plot_add_item [OF st fa fa'] by (simp add: plain_item_class)
    then show ?thesis
      using same_plot_add_item [OF _ fa fa'] by (simp add: plain_item_class)
  qed
  have loop: "rel_sum (=) same_plot
      (for_each (\<lambda>(group_name, gd) g'.
                     if x_data gd = [] then Inr g'
                     else Inr (add_item a (plain_item TextItem)
                                 (add_item a (plain_item PlotDataItem) g'))) (groups p) g)
      (for_each (\<lambda>(group_name, gd) g'.
                     if x_data gd = [] then Inr g'
                     else Inr (add_item a' (plain_item TextItem)
                                 (add_item a' (plain_item PlotDataItem) g'))) (groups p) h)"
  proof (rule for_each_same_plot [OF _ sp], goal_cases)
    case (1 x s t)
    obtain n gd where x: "x = (n, gd)"
      by (cases x) auto
    show ?case
      unfolding x prod.case
      by (intro same_plot_if same_plot_Inr box 1(2))
  qed
  show ?thesis
    unfolding add_grouping_boxes_def Let_def
    by (intro same_plot_if same_plot_Inr sp loop)
qed

lemma add_comparison_reference_line_sim:
  assumes fa: "\<And>store. a store \<notin> fst ` set store"
    and fa': "\<And>store. a' store \<notin> fst ` set store" and sp: "same_plot g h"
  shows "rel_sum (=) same_plot (add_comparison_reference_line a p g)
           (add_comparison_reference_line a' p h)"
proof -
  have "same_plot (add_item a (plain_item PlotDataItem) g) (add_item a' (plain_item PlotDataItem) h)"
    using same_plot_add_item [OF sp fa fa'] by (simp add: plain_item_class)
  then show ?thesis
    unfolding add_comparison_reference_line_def
    by (intro same_plot_if same_plot_Inr sp)
qed

lemma apply_styling_sim:
  assumes fa: "\<And>store. a store \<notin> fst ` set store"
    and fa': "\<And>store. a' store \<notin> fst ` set store" and sp: "same_plot g h"
  shows "rel_sum (=) same_plot (apply_styling a g) (apply_styling a' h)"
proof (cases "prepared_data h")
  case None
  then show ?thesis
    using same_plot_fields [OF sp] by (simp add: apply_styling_def)
next
  case (Some p)
  have pg: "prepared_data g = Some p"
    using same_plot_fields(2) [OF sp] Some by simp
  show ?thesis
    unfolding apply_styling_def Let_def pg Some same_plot_fields(1) [OF sp] option.case
    by (intro then_do_same_plot same_plot_if same_plot_Inr add_spec_lines_sim [OF fa fa']
        add_grouping_boxes_sim [OF fa fa'] add_comparison_reference_line_sim [OF fa fa'] sp)
qed

lemma setup_interactivity_sim:
  assumes fa: "\<And>store. a store \<notin> fst ` set store"
    and fa': "\<And>store. a' store \<notin> fst ` set store" and sp: "same_plot g h"
  shows "same_plot (setup_interactivity a g) (setup_interactivity a' h)"
proof -
  have line: "same_plot (add_item a (plain_item c) s) (add_item a' (plain_item c) t)"
    if "same_plot s t" and "c \<noteq> ScatterPlotItem" for s t c
    using same_plot_add_item [OF that(1) fa fa'] that(2) by (simp add: plain_item_class)
  have tip: "same_plot (s\<lparr>tooltip_visible := v\<rparr>) (t\<lparr>tooltip_visible := v\<rparr>)"
    if "same_plot s t" for s t v
    using that by (simp add: same_plot_def point_records_def scatter_collections_def)
  define g1 where "g1 = (if enable_crosshair (config h) then add_crosshair a g else g)"
  define h1 where "h1 = (if enable_crosshair (config h) then add_crosshair a' h else h)"
  have s1: "same_plot g1 h1"
    unfolding g1_def h1_def add_crosshair_def using sp by (auto intro!: line)
  have "same_plot (if enable_tooltips (config h1) then setup_tooltip a g1 else g1)
          (if enable_tooltips (config h1) then setup_tooltip a' h1 else h1)"
    unfolding setup_tooltip_def using s1 by (auto intro!: line tip)
  then show ?thesis
    unfolding setup_interactivity_def Let_def same_plot_fields(1) [OF sp]
      g1_def [symmetric] h1_def [symmetric] same_plot_fields(1) [OF s1] .
qed

lemma scatter_collections_up_to_identity:
  assumes "map snd (items g) = map snd (items h)"
  shows "map snd (scatter_collections g) = map snd (scatter_collections h)"
proof -
  have "map snd (filter (\<lambda>(i, item). item_class item = ScatterPlotItem) xs)
          = filter (\<lambda>item. item_class item = ScatterPlotItem) (map snd xs)"
    for xs :: "(nat \<times> plot_item) list"
    by (induction xs) auto
  then show ?thesis
    using assms by (simp add: scatter_collections_def)
qed

lemma prepare_data_new_generator:
  assumes "prepare_data (new_generator cfg) = Inr g1"
  shows "config g1 = cfg" and "items g1 = []" and "deleted_items g1 = {}"
  using assms
  by (auto simp: prepare_data_def new_generator_def split: if_splits sum.splits prod.splits)


lemma le_foldr_max: "x \<in> set xs \<Longrightarrow> x \<le> foldr max xs (0 :: nat)"
  by (induction xs) auto

lemma example_allocator_fresh: "\<forall>store. example_allocator base store \<notin> fst ` set store"
proof (intro allI notI)
  fix store :: "(nat \<times> plot_item) list"
  assume "example_allocator base store \<in> fst ` set store"
  then have "example_allocator base store \<in> set (map fst store)"
    by simp
  then have "example_allocator base store \<le> foldr max (map fst store) 0"
    by (rule le_foldr_max)
  then show False
    by (simp add: example_allocator_def)
qed

lemmas render_eval =
  create_plot_def reset_deletions_def generator_plot_data_def plot_scatter_def
  plot_scatter_group_def apply_styling_def add_spec_lines_def spec_limits_def
  setup_interactivity_def add_crosshair_def setup_tooltip_def add_item_def plain_item_def
  calculate_point_size_def num_real_def example_allocator_def then_do_def
  scatter_collections_def point_records_def point_count_def

lemma example_plot_state:
  "\<exists>g. create_plot (example_allocator 0) example_config = Inr g \<and>
     items g = example_plot_items \<and> point_measurement_map g = example_plot_map \<and>
     selected_item g = None \<and> selected_index g = None \<and> deleted_items g = {}"
  by (simp add: example_config_def pipeline_eval render_eval upt_rec example_plot_items_def
      example_plot_map_def)

lemma example_deletions:
  assumes "items g = example_plot_items" and "point_measurement_map g = example_plot_map"
    and "selected_item g = None" and "selected_index g = None" and "deleted_items g = {}"
  shows "map (\<lambda>(i, item). points item)
           (scatter_collections (delete_points g [(1, 1), (2, 0), (2, 9), (3, 0)])) =
         [Some [(0, Some 10), (2, Some 14)], Some [(5, Some 13), (6, Some 15), (7, Some 16)]]"
    and "deleted_items (delete_points g [(1, 1), (2, 0), (2, 9), (3, 0)])
           = {(1, 1), (2, 0), (2, 9)}"
    and "map (map (map_option spec_id))
           (point_records (delete_points g [(1, 1), (2, 0), (2, 9), (3, 0)])) =
         [[Some 1, Some 5], [Some 4, Some 6, Some 7]]"
  using assms
  by (simp_all add: delete_points_def delete_point_def state_after_def mask_index_def drop_nth_def
      reindex_map_def reindex_step_def clear_selection_def example_plot_items_def
      example_plot_map_def plain_item_def scatter_collections_def point_records_def
      point_count_def Let_def insert_commute upt_rec blank_measurement_def)

text \<open>
  Claim C3. Let \<^verbatim>\<open>_create_plot\<close> return a plot: \<^verbatim>\<open>prepare_data\<close> has returned, with
  the prepared data and an equal snapshot, and the first rendering has returned. After
  any sequence of deletion requests on that plot, valid or not, \<^verbatim>\<open>reset_deletions\<close>
  returns; the prepared data is equal to the snapshot taken by \<^verbatim>\<open>prepare_data\<close>, the
  snapshot is kept, the set of deleted point ids is empty, and the plot shows what the
  first rendering showed: the same items in the same order, among them the same scatter
  collections with the same coordinate arrays and sizes, and behind every point the same
  record. The items are new objects; an allocator gives a new object an identity that
  no item on the plot has.
\<close>

theorem undo_round_trip:
  assumes fa: "\<forall>store. new_id store \<notin> fst ` set store"
    and fa': "\<forall>store. new_id' store \<notin> fst ` set store"
    and cp: "create_plot new_id cfg = Inr g"
  shows "\<exists>g1 g'. prepare_data (new_generator cfg) = Inr g1 \<and>
           reset_deletions new_id' (delete_points g requests) = Inr g' \<and>
           prepared_data g' = original_data g1 \<and>
           prepared_data g1 = original_data g1 \<and> original_data g1 \<noteq> None \<and>
           prepared_data g = original_data g1 \<and>
           original_data g' = original_data g1 \<and>
           deleted_items g' = {} \<and>
           map snd (items g') = map snd (items g) \<and>
           map snd (scatter_collections g') = map snd (scatter_collections g) \<and>
           point_records g' = point_records g"
proof -
  have a: "a store \<notin> fst ` set store" if "\<forall>store. a store \<notin> fst ` set store"
    for a :: allocator and store
    using that by simp
  note fr = a [OF fa] and fr' = a [OF fa']
  obtain g1 where g1: "prepare_data (new_generator cfg) = Inr g1"
    and c1: "then_do (generator_plot_data new_id g1)
               (\<lambda>g2. then_do (apply_styling new_id g2)
                  (\<lambda>g3. Inr (setup_interactivity new_id g3))) = Inr g"
    using cp unfolding create_plot_def by (cases "prepare_data (new_generator cfg)") simp_all
  obtain g2 where g2: "generator_plot_data new_id g1 = Inr g2"
    and c2: "then_do (apply_styling new_id g2) (\<lambda>g3. Inr (setup_interactivity new_id g3)) = Inr g"
    using c1 by (cases "generator_plot_data new_id g1") simp_all
  obtain g3 where g3: "apply_styling new_id g2 = Inr g3"
    and g: "g = setup_interactivity new_id g3"
    using c2 by (cases "apply_styling new_id g2") auto
  obtain p where p: "prepared_data g1 = Some p" "original_data g1 = Some p"
    using prepare_data_snapshot [OF g1] by blast
  have sd: "same_data g1 g"
    unfolding g
    using same_data_trans [OF generator_plot_data_same_data [OF g2]
        same_data_trans [OF apply_styling_same_data [OF g3] setup_interactivity_same_data]] .
  define d where "d = delete_points g requests"
  have gp: "original_data g = Some p" "config g = cfg" "prepared_data g = Some p"
    using sd p prepare_data_new_generator(1) [OF g1] by (auto simp: same_data_def)
  have d: "original_data d = Some p" "config d = cfg"
    using delete_points_data [of g requests] delete_points_config [of g requests] gp
    by (auto simp: d_def)
  define h0 where
    "h0 = (clear_selection (d\<lparr>deleted_items := {}, prepared_data := Some p\<rparr>))\<lparr>items := []\<rparr>"
  have h0: "config h0 = cfg" "prepared_data h0 = Some p" "original_data h0 = Some p"
    "deleted_items h0 = {}" "items h0 = []"
    using d by (simp_all add: h0_def clear_selection_config clear_selection_fields)
  have rd: "reset_deletions new_id' d =
              then_do (generator_plot_data new_id' h0)
                (\<lambda>g5. then_do (apply_styling new_id' g5)
                   (\<lambda>g6. Inr (setup_interactivity new_id' g6)))"
    using d(1) by (simp add: reset_deletions_def Let_def h0_def)
  have s0: "same_plot g1 h0"
    using prepare_data_new_generator [OF g1] p h0
    by (simp add: same_plot_def point_records_def scatter_collections_def)
  obtain h2 where h2: "generator_plot_data new_id' h0 = Inr h2" and s2: "same_plot g2 h2"
    using generator_plot_data_sim [OF fr fr' s0] g2
    by (cases "generator_plot_data new_id' h0") simp_all
  obtain h3 where h3: "apply_styling new_id' h2 = Inr h3" and s3: "same_plot g3 h3"
    using apply_styling_sim [OF fr fr' s2] g3
    by (cases "apply_styling new_id' h2") simp_all
  define g' where "g' = setup_interactivity new_id' h3"
  have s: "same_plot g g'"
    unfolding g g'_def using setup_interactivity_sim [OF fr fr' s3] .
  have r: "reset_deletions new_id' (delete_points g requests) = Inr g'"
    using rd h2 h3 by (simp add: d_def g'_def)
  have sh: "same_data h0 g'"
    unfolding g'_def
    using same_data_trans [OF generator_plot_data_same_data [OF h2]
        same_data_trans [OF apply_styling_same_data [OF h3] setup_interactivity_same_data]] .
  have f: "prepared_data g' = Some p" "original_data g' = Some p" "deleted_items g' = {}"
    using sh h0 by (auto simp: same_data_def)
  have i: "map snd (items g') = map snd (items g)" "point_records g' = point_records g"
    using s by (simp_all add: same_plot_def)
  show ?thesis
  proof (intro exI conjI)
    show "prepare_data (new_generator cfg) = Inr g1"
      by (rule g1)
    show "reset_deletions new_id' (delete_points g requests) = Inr g'"
      by (rule r)
    show "prepared_data g' = original_data g1"
      using f p by simp
    show "prepared_data g1 = original_data g1"
      using p by simp
    show "original_data g1 \<noteq> None"
      using p by simp
    show "prepared_data g = original_data g1"
      using gp p by simp
    show "original_data g' = original_data g1"
      using f p by simp
    show "deleted_items g' = {}"
      by (rule f(3))
    show "map snd (items g') = map snd (items g)"
      by (rule i(1))
    show "map snd (scatter_collections g') = map snd (scatter_collections g)"
      using scatter_collections_up_to_identity [OF i(1)] .
    show "point_records g' = point_records g"
      by (rule i(2))
  qed
qed

theorem undo_round_trip_witness:
  "\<exists>g g1 g'. create_plot (example_allocator 0) example_config = Inr g \<and>
     map (\<lambda>(i, item). points item) (scatter_collections g) =
       [Some [(0, Some 10), (1, Some 12), (2, Some 14)],
        Some [(4, Some 11), (5, Some 13), (6, Some 15), (7, Some 16)]] \<and>
     map (\<lambda>(i, item). points item)
         (scatter_collections (delete_points g [(1, 1), (2, 0), (2, 9), (3, 0)])) =
       [Some [(0, Some 10), (2, Some 14)], Some [(5, Some 13), (6, Some 15), (7, Some 16)]] \<and>
     map (map (map_option spec_id))
         (point_records (delete_points g [(1, 1), (2, 0), (2, 9), (3, 0)])) =
       [[Some 1, Some 5], [Some 4, Some 6, Some 7]] \<and>
     deleted_items (delete_points g [(1, 1), (2, 0), (2, 9), (3, 0)])
       = {(1, 1), (2, 0), (2, 9)} \<and>
     prepare_data (new_generator example_config) = Inr g1 \<and>
     reset_deletions (example_allocator 100)
         (delete_points g [(1, 1), (2, 0), (2, 9), (3, 0)]) = Inr g' \<and>
     prepared_data g' = original_data g1 \<and> original_data g1 \<noteq> None \<and>
     deleted_items g' = {} \<and>
     map (\<lambda>(i, item). points item) (scatter_collections g') =
       [Some [(0, Some 10), (1, Some 12), (2, Some 14)],
        Some [(4, Some 11), (5, Some 13), (6, Some 15), (7, Some 16)]] \<and>
     map (map (map_option spec_id)) (point_records g') =
       [[Some 1, Some 3, Some 5], [Some 2, Some 4, Some 6, Some 7]]"
proof -
  let ?reqs = "[(1, 1), (2, 0), (2, 9), (3, 0)] :: (nat \<times> int) list"
  obtain g where cg: "create_plot (example_allocator 0) example_config = Inr g"
    and st: "items g = example_plot_items" "point_measurement_map g = example_plot_map"
      "selected_item g = None" "selected_index g = None" "deleted_items g = {}"
    using example_plot_state by blast
  note del = example_deletions [OF st]
  obtain g1 g' where g1: "prepare_data (new_generator example_config) = Inr g1"
    and r: "reset_deletions (example_allocator 100) (delete_points g ?reqs) = Inr g'"
    and pd: "prepared_data g' = original_data g1" "original_data g1 \<noteq> None"
    and di: "deleted_items g' = {}"
    and sc: "map snd (scatter_collections g') = map snd (scatter_collections g)"
    and pr: "point_records g' = point_records g"
    using undo_round_trip [OF example_allocator_fresh example_allocator_fresh cg,
        where requests = ?reqs]
    by blast
  have pts: "map (\<lambda>(i, item). points item) (scatter_collections g) =
       [Some [(0, Some 10), (1, Some 12), (2, Some 14)],
        Some [(4, Some 11), (5, Some 13), (6, Some 15), (7, Some 16)]]"
    by (simp add: scatter_collections_def st example_plot_items_def plain_item_def)
  have recs: "map (map (map_option spec_id)) (point_records g) =
       [[Some 1, Some 3, Some 5], [Some 2, Some 4, Some 6, Some 7]]"
    by (simp add: point_records_def scatter_collections_def point_count_def st
        example_plot_items_def example_plot_map_def plain_item_def upt_rec
        blank_measurement_def)
  have ps: "map (\<lambda>(i, item). points item) xs = map points (map snd xs)"
    for xs :: "(nat \<times> plot_item) list"
    by (induction xs) auto
  have "map (\<lambda>(i, item). points item) (scatter_collections g') =
          map (\<lambda>(i, item). points item) (scatter_collections g)"
    unfolding ps sc ..
  then have pts': "map (\<lambda>(i, item). points item) (scatter_collections g') =
       [Some [(0, Some 10), (1, Some 12), (2, Some 14)],
        Some [(4, Some 11), (5, Some 13), (6, Some 15), (7, Some 16)]]"
    using pts by (simp only:)
  show ?thesis
  proof (intro exI conjI)
    show "create_plot (example_allocator 0) example_config = Inr g"
      by (rule cg)
    show "map (\<lambda>(i, item). points item) (scatter_collections g) =
       [Some [(0, Some 10), (1, Some 12), (2, Some 14)],
        Some [(4, Some 11), (5, Some 13), (6, Some 15), (7, Some 16)]]"
      by (rule pts)
    show "map (\<lambda>(i, item). points item) (scatter_collections (delete_points g ?reqs)) =
       [Some [(0, Some 10), (2, Some 14)], Some [(5, Some 13), (6, Some 15), (7, Some 16)]]"
      by (rule del(1))
    show "map (map (map_option spec_id)) (point_records (delete_points g ?reqs)) =
       [[Some 1, Some 5], [Some 4, Some 6, Some 7]]"
      by (rule del(3))
    show "deleted_items (delete_points g ?reqs) = {(1, 1), (2, 0), (2, 9)}"
      by (rule del(2))
    show "prepare_data (new_generator example_config) = Inr g1"
      by (rule g1)
    show "reset_deletions (example_allocator 100) (delete_points g ?reqs) = Inr g'"
      by (rule r)
    show "prepared_data g' = original_data g1"
      by (rule pd(1))
    show "original_data g1 \<noteq> None"
      by (rule pd(2))
    show "deleted_items g' = {}"
      by (rule di)
    show "map (\<lambda>(i, item). points item) (scatter_collections g') =
       [Some [(0, Some 10), (1, Some 12), (2, Some 14)],
        Some [(4, Some 11), (5, Some 13), (6, Some 15), (7, Some 16)]]"
      by (rule pts')
    show "map (map (map_option spec_id)) (point_records g') =
       [[Some 1, Some 3, Some 5], [Some 2, Some 4, Some 6, Some 7]]"
      using recs pr by simp
  qed
qed

section \<open>Index-based scatter extraction\<close>

lemma dict_set_fresh: "k \<notin> fst ` set d \<Longrightarrow> dict_set d k v = d @ [(k, v)]"
  by (induction d k v rule: dict_set.induct) auto

lemma keys_dict_append:
  "map fst (dict_append d k v) = (if k \<in> set (map fst d) then map fst d else map fst d @ [k])"
  by (induction d k v rule: dict_append.induct) auto

lemma distinct_dict_append:
  "distinct (map fst d) \<Longrightarrow> distinct (map fst (dict_append d k v))"
  by (simp add: keys_dict_append)

lemma distinct_foldl_dict_append:
  "distinct (map fst d) \<Longrightarrow> distinct (map fst (foldl (\<lambda>d m. dict_append d (f m) m) d ms))"
  by (induction ms arbitrary: d) (simp_all add: distinct_dict_append)

lemma distinct_get_grouped_data: "distinct (map fst (get_grouped_data ms))"
  unfolding get_grouped_data_def by (rule distinct_foldl_dict_append) simp

lemma distinct_make_groups: "distinct (map fst (make_groups cfg))"
  by (simp add: make_groups_def distinct_get_grouped_data)

lemma upt_0_Suc_map: "[0 ..< Suc n] = 0 # map Suc [0 ..< n]"
  by (simp add: upt_conv_Cons map_Suc_upt del: upt_Suc)

lemma standard_rows_index:
  assumes "x_axis_use_indices cfg" and "graph_type cfg = SCATTER"
  shows "\<forall>(i, m) \<in> set rows. is_plot m \<or> (\<exists>v. get_x_value m = Inr v) \<Longrightarrow>
     \<exists>rs. standard_rows cfg s rows = Inr rs \<and>
        map fst rs = map (\<lambda>j. PyInt (s + int j))
                       [0 ..< length (filter (\<lambda>(i, m). \<not> is_plot m) rows)]"
proof (induction rows arbitrary: s)
  case Nil
  then show ?case by simp
next
  case (Cons r rows)
  obtain idx m where r: "r = (idx, m)"
    by (cases r) auto
  have rest: "\<forall>(i, m) \<in> set rows. is_plot m \<or> (\<exists>v. get_x_value m = Inr v)"
    using Cons.prems by simp
  show ?case
  proof (cases "is_plot m")
    case True
    then show ?thesis
      using Cons.IH [OF rest, of s] by (simp add: r)
  next
    case False
    then obtain v where v: "get_x_value m = Inr v"
      using Cons.prems by (auto simp: r)
    obtain rs where rs: "standard_rows cfg (s + 1) rows = Inr rs"
      and ix: "map fst rs = map (\<lambda>j. PyInt (s + 1 + int j))
                        [0 ..< length (filter (\<lambda>(i, m). \<not> is_plot m) rows)]"
      using Cons.IH [OF rest, of "s + 1"] by blast
    have step: "standard_rows cfg s (r # rows) = Inr ((PyInt s, measurement m, v, idx) # rs)"
      using False assms v rs by (simp add: r)
    have "map fst ((PyInt s, measurement m, v, idx) # rs) =
            PyInt s # map (\<lambda>j. PyInt (s + 1 + int j))
                        [0 ..< length (filter (\<lambda>(i, m). \<not> is_plot m) rows)]"
      using ix by simp
    also have "\<dots> = map (\<lambda>j. PyInt (s + int j))
                        [0 ..< Suc (length (filter (\<lambda>(i, m). \<not> is_plot m) rows))]"
      unfolding upt_0_Suc_map by (simp add: comp_def add.assoc)
    finally have "map fst ((PyInt s, measurement m, v, idx) # rs) =
        map (\<lambda>j. PyInt (s + int j))
          [0 ..< length (filter (\<lambda>(i, m). \<not> is_plot m) (r # rows))]"
      using False by (simp add: r)
    then show ?thesis
      using step by blast
  qed
qed

lemma standard_rows_raises:
  "(i, m) \<in> set rows \<Longrightarrow> \<not> is_plot m \<Longrightarrow> get_x_value m = Inl e \<Longrightarrow>
     \<exists>e'. standard_rows cfg s rows = Inl e'"
proof (induction rows arbitrary: s)
  case Nil
  then show ?case by simp
next
  case (Cons r rows)
  obtain idx m' where r: "r = (idx, m')"
    by (cases r) auto
  show ?case
  proof (cases "(i, m) = r")
    case True
    then show ?thesis
      using Cons.prems(2,3) by (simp add: r)
  next
    case False
    then have "(i, m) \<in> set rows"
      using Cons.prems(1) by simp
    then have "\<exists>e'. standard_rows cfg t rows = Inl e'" for t
      using Cons.IH Cons.prems(2,3) by blast
    then obtain e1 e2 where "standard_rows cfg s rows = Inl e1"
      and "standard_rows cfg (s + 1) rows = Inl e2"
      by blast
    then show ?thesis
      by (simp add: r split: sum.splits)
  qed
qed

lemma length_filter_zip_upt:
  "length (filter (\<lambda>(i, m). P m) (zip [a ..< a + length ms] ms)) = length (filter P ms)"
proof (induction ms arbitrary: a)
  case Nil
  then show ?case by simp
next
  case (Cons m ms)
  have "a < a + length (m # ms)"
    by simp
  then have "[a ..< a + length (m # ms)] = a # [Suc a ..< a + length (m # ms)]"
    by (rule upt_conv_Cons)
  moreover have "a + length (m # ms) = Suc a + length ms"
    by simp
  ultimately have "[a ..< a + length (m # ms)] = a # [Suc a ..< Suc a + length ms]"
    by (simp only:)
  then have "zip [a ..< a + length (m # ms)] (m # ms) = (a, m) # zip [Suc a ..< Suc a + length ms] ms"
    by (simp only: zip_Cons_Cons)
  then show ?case
    using Cons.IH [of "Suc a"] by (simp only: filter.simps list.size split: if_splits) auto
qed

lemma fst_rows: "(\<lambda>(x, y, l, i). x) = fst"
  by (auto simp: fun_eq_iff)

lemma extract_standard_x_data:
  assumes "x_axis_use_indices cfg" and "graph_type cfg = SCATTER"
    and "\<forall>m \<in> set ms. is_plot m \<or> (\<exists>v. get_x_value m = Inr v)"
  shows "\<exists>ex. extract_standard_data cfg ms s = Inr ex \<and>
           x_data ex = map (\<lambda>j. PyInt (s + int j)) [0 ..< scalar_count ms]"
proof -
  have "\<forall>(i, m) \<in> set (zip [0 ..< length ms] ms). is_plot m \<or> (\<exists>v. get_x_value m = Inr v)"
    using assms(3) by (auto dest: set_zip_rightD)
  then obtain rs where rs: "standard_rows cfg s (zip [0 ..< length ms] ms) = Inr rs"
    and ix: "map fst rs = map (\<lambda>j. PyInt (s + int j))
               [0 ..< length (filter (\<lambda>(i, m). \<not> is_plot m) (zip [0 ..< length ms] ms))]"
    using standard_rows_index [OF assms(1,2)] by blast
  have "length (filter (\<lambda>(i, m). \<not> is_plot m) (zip [0 ..< length ms] ms)) = scalar_count ms"
    using length_filter_zip_upt [of "\<lambda>m. \<not> is_plot m" 0 ms] by (simp add: scalar_count_def)
  then show ?thesis
    using rs ix by (simp add: extract_standard_data_def Let_def fst_rows)
qed

lemma extract_standard_raises:
  assumes "m \<in> set ms" and "\<not> is_plot m" and "get_x_value m = Inl e"
  shows "\<exists>e'. extract_standard_data cfg ms s = Inl e'"
proof -
  obtain i where i: "i < length ms" "ms ! i = m"
    using assms(1) by (auto simp: in_set_conv_nth)
  have "(i, m) \<in> set (zip [0 ..< length ms] ms)"
    unfolding in_set_zip using i by (intro exI [of _ i]) simp
  then obtain e' where "standard_rows cfg s (zip [0 ..< length ms] ms) = Inl e'"
    using standard_rows_raises [OF _ assms(2,3)] by blast
  then show ?thesis
    by (simp add: extract_standard_data_def)
qed

lemma prepare_group_data_standard:
  assumes "comparison_mode cfg = NONE" and "x_axis_use_indices cfg"
    and "graph_type cfg = SCATTER"
    and "\<forall>m \<in> set ms. is_plot m \<or> (\<exists>v. get_x_value m = Inr v)"
  shows "\<exists>gd. prepare_group_data cfg ms s = Inr gd \<and>
           x_data gd = map (\<lambda>j. PyInt (s + int j)) [0 ..< scalar_count ms]"
proof -
  obtain ex where "extract_standard_data cfg ms s = Inr ex"
    and "x_data ex = map (\<lambda>j. PyInt (s + int j)) [0 ..< scalar_count ms]"
    using extract_standard_x_data [OF assms(2-4)] by blast
  then show ?thesis
    using assms(1) by (simp add: prepare_group_data_def extract_data_def Let_def)
qed

lemma prepare_group_data_raises:
  assumes "comparison_mode cfg = NONE"
    and "m \<in> set ms" and "\<not> is_plot m" and "get_x_value m = Inl e"
  shows "\<exists>e'. prepare_group_data cfg ms s = Inl e'"
proof -
  obtain e' where "extract_standard_data cfg ms s = Inl e'"
    using extract_standard_raises [OF assms(2-4)] by blast
  then show ?thesis
    using assms(1) by (simp add: prepare_group_data_def extract_data_def Let_def)
qed

lemma prepare_loop_standard:
  assumes m: "comparison_mode cfg = NONE" and u: "x_axis_use_indices cfg"
    and t: "graph_type cfg = SCATTER"
  shows "distinct (map fst gs) \<Longrightarrow> fst ` set acc \<inter> fst ` set gs = {} \<Longrightarrow>
     \<forall>(n, ms) \<in> set gs. \<forall>m \<in> set ms. is_plot m \<or> (\<exists>v. get_x_value m = Inr v) \<Longrightarrow>
     \<exists>new hp' tp' gx'. prepare_loop cfg gs (acc, hp, tp, gx) = Inr (acc @ new, hp', tp', gx') \<and>
        map fst new = map fst gs \<and>
        map (\<lambda>(n, gd). length (x_data gd)) new = map (\<lambda>(n, ms). scalar_count ms) gs \<and>
        index_continuity gx (map (\<lambda>(n, gd). x_data gd) new)"
proof (induction gs arbitrary: acc hp tp gx)
  case Nil
  then show ?case by simp
next
  case (Cons a gs)
  obtain gname gms where a: "a = (gname, gms)"
    by (cases a) auto
  have conv: "\<forall>m \<in> set gms. is_plot m \<or> (\<exists>v. get_x_value m = Inr v)"
    using Cons.prems(3) by (simp add: a)
  have conv_rest:
    "\<forall>(n, ms) \<in> set gs. \<forall>m \<in> set ms. is_plot m \<or> (\<exists>v. get_x_value m = Inr v)"
    using Cons.prems(3) by simp
  obtain gd where gd: "prepare_group_data cfg gms gx = Inr gd"
    and xd: "x_data gd = map (\<lambda>j. PyInt (gx + int j)) [0 ..< scalar_count gms]"
    using prepare_group_data_standard [OF m u t conv, of gx] by blast
  have fresh: "gname \<notin> fst ` set acc"
    using Cons.prems(2) a by auto
  have ds: "dict_set acc gname gd = acc @ [(gname, gd)]"
    using fresh by (rule dict_set_fresh)
  define gx1 where "gx1 = (if x_data gd \<noteq> [] then gx + int (length (x_data gd)) + 1 else gx)"
  define tp1 where "tp1 = (if x_data gd \<noteq> [] then tp + int (length (x_data gd)) else tp)"
  have step: "prepare_loop cfg (a # gs) (acc, hp, tp, gx) =
                prepare_loop cfg gs (acc @ [(gname, gd)], hp \<or> has_plots gd, tp1, gx1)"
    by (simp add: a gd ds gx1_def tp1_def)
  have d: "distinct (map fst gs)"
    using Cons.prems(1) by simp
  have disj: "fst ` set (acc @ [(gname, gd)]) \<inter> fst ` set gs = {}"
    using Cons.prems(1,2) a by auto
  obtain new hp' tp' gx' where
    r: "prepare_loop cfg gs (acc @ [(gname, gd)], hp \<or> has_plots gd, tp1, gx1)
          = Inr ((acc @ [(gname, gd)]) @ new, hp', tp', gx')"
    and k: "map fst new = map fst gs"
    and l: "map (\<lambda>(n, gd). length (x_data gd)) new = map (\<lambda>(n, ms). scalar_count ms) gs"
    and c: "index_continuity gx1 (map (\<lambda>(n, gd). x_data gd) new)"
    using Cons.IH [OF d disj conv_rest, of "hp \<or> has_plots gd" tp1 gx1] by blast
  have len: "length (x_data gd) = scalar_count gms"
    by (simp add: xd)
  have gx1: "gx1 = (if x_data gd = [] then gx else gx + int (length (x_data gd)) + 1)"
    by (simp add: gx1_def)
  have c': "index_continuity gx (map (\<lambda>(n, gd). x_data gd) ((gname, gd) # new))"
    unfolding list.map(2) prod.case index_continuity.simps(2)
  proof (intro conjI)
    show "x_data gd = map (\<lambda>j. PyInt (gx + int j)) [0 ..< length (x_data gd)]"
      using xd len by simp
    show "index_continuity (if x_data gd = [] then gx else gx + int (length (x_data gd)) + 1)
            (map (\<lambda>(n, gd). x_data gd) new)"
      using c unfolding gx1 .
  qed
  have r': "prepare_loop cfg (a # gs) (acc, hp, tp, gx)
              = Inr (acc @ ((gname, gd) # new), hp', tp', gx')"
    using step r by simp
  have k': "map fst ((gname, gd) # new) = map fst (a # gs)"
    using k a by simp
  have l': "map (\<lambda>(n, gd). length (x_data gd)) ((gname, gd) # new)
              = map (\<lambda>(n, ms). scalar_count ms) (a # gs)"
    using l len a by simp
  show ?case
    using r' k' l' c' by blast
qed

lemma prepare_loop_raises:
  assumes "comparison_mode cfg = NONE"
  shows "(n, ms) \<in> set gs \<Longrightarrow> m \<in> set ms \<Longrightarrow> \<not> is_plot m \<Longrightarrow> get_x_value m = Inl e \<Longrightarrow>
     \<exists>e'. prepare_loop cfg gs st = Inl e'"
proof (induction gs arbitrary: st)
  case Nil
  then show ?case by simp
next
  case (Cons a gs)
  obtain gname gms where a: "a = (gname, gms)"
    by (cases a) auto
  obtain acc hp tp gx where st: "st = (acc, hp, tp, gx)"
    by (cases st) auto
  show ?case
  proof (cases "prepare_group_data cfg gms gx")
    case (Inl e')
    then show ?thesis
      by (simp add: a st)
  next
    case (Inr gd)
    have "(n, ms) \<noteq> a"
    proof
      assume "(n, ms) = a"
      then have "ms = gms"
        using a by simp
      then have "\<exists>e'. prepare_group_data cfg gms gx = Inl e'"
        using prepare_group_data_raises [OF assms, of m gms e gx] Cons.prems(2-4) by simp
      then show False
        using Inr by simp
    qed
    then have "(n, ms) \<in> set gs"
      using Cons.prems(1) by auto
    then have "\<exists>e'. prepare_loop cfg gs st' = Inl e'" for st'
      using Cons.IH Cons.prems(2-4) by blast
    then show ?thesis
      by (simp add: a st Inr)
  qed
qed

lemma members_dict_append:
  "(\<Union>(k, vs) \<in> set (dict_append d k' v). set vs) = insert v (\<Union>(k, vs) \<in> set d. set vs)"
  by (induction d k' v rule: dict_append.induct) auto

lemma members_foldl_dict_append:
  "(\<Union>(k, vs) \<in> set (foldl (\<lambda>d m. dict_append d (f m) m) d ms). set vs)
     = set ms \<union> (\<Union>(k, vs) \<in> set d. set vs)"
  by (induction ms arbitrary: d) (simp_all add: members_dict_append)

lemma members_make_groups:
  "(\<Union>(n, ms) \<in> set (make_groups cfg). set ms) = set (measurements cfg)"
  using members_foldl_dict_append [of group_key "[]" "measurements cfg"]
  by (simp add: make_groups_def get_grouped_data_def)

lemma prepare_data_standard:
  assumes "comparison_mode (config g) = NONE" and "x_axis_use_indices (config g)"
    and "graph_type (config g) = SCATTER" and "measurements (config g) \<noteq> []"
    and "\<forall>m \<in> set (measurements (config g)). is_plot m \<or> (\<exists>v. get_x_value m = Inr v)"
  shows "\<exists>g' p. prepare_data g = Inr g' \<and> prepared_data g' = Some p \<and>
           map fst (groups p) = map fst (make_groups (config g)) \<and>
           map (\<lambda>(n, gd). length (x_data gd)) (groups p)
             = map (\<lambda>(n, ms). scalar_count ms) (make_groups (config g)) \<and>
           index_continuity 0 (map (\<lambda>(n, gd). x_data gd) (groups p))"
proof -
  have conv: "\<forall>(n, ms) \<in> set (make_groups (config g)).
      \<forall>m \<in> set ms. is_plot m \<or> (\<exists>v. get_x_value m = Inr v)"
    using assms(5) members_make_groups [of "config g"] by blast
  obtain new hp' tp' gx' where
    r: "prepare_loop (config g) (make_groups (config g)) ([], False, 0, 0)
          = Inr ([] @ new, hp', tp', gx')"
    and k: "map fst new = map fst (make_groups (config g))"
    and l: "map (\<lambda>(n, gd). length (x_data gd)) new
              = map (\<lambda>(n, ms). scalar_count ms) (make_groups (config g))"
    and c: "index_continuity 0 (map (\<lambda>(n, gd). x_data gd) new)"
    using prepare_loop_standard [OF assms(1-3) distinct_make_groups [of "config g"] _ conv,
            where acc = "[]" and hp = False and tp = 0 and gx = 0]
    by auto
  show ?thesis
    using assms(4) r k l c by (simp add: prepare_data_def)
qed

lemma prepare_data_raises:
  assumes "comparison_mode (config g) = NONE"
    and "m \<in> set (measurements (config g))" and "\<not> is_plot m" and "get_x_value m = Inl e"
  shows "\<exists>e'. prepare_data g = Inl e'"
proof -
  obtain n ms where "(n, ms) \<in> set (make_groups (config g))" and "m \<in> set ms"
    using assms(2) members_make_groups [of "config g"] by blast
  then obtain e' where
    "prepare_loop (config g) (make_groups (config g)) ([], False, 0, 0) = Inl e'"
    using prepare_loop_raises [OF assms(1) _ _ assms(3,4)] by blast
  then show ?thesis
    by (simp add: prepare_data_def)
qed

lemma index_continuity_filter:
  "index_continuity s bs \<Longrightarrow> index_continuity s (filter (\<lambda>b. b \<noteq> []) bs)"
  by (induction bs arbitrary: s) auto

lemma block_hd_last:
  assumes "b = map (\<lambda>j. PyInt (s + int j)) [0 ..< length b]" and "b \<noteq> []"
  shows "hd b = PyInt s \<and> last b = PyInt (s + int (length b) - 1)"
proof -
  obtain n where n: "length b = Suc n"
    using assms(2) by (cases b) auto
  have b: "b = map (\<lambda>j. PyInt (s + int j)) [0 ..< Suc n]"
    using assms(1) n by simp
  have "hd b = PyInt s"
    by (subst b) (simp add: hd_map upt_conv_Cons del: upt_Suc)
  moreover have "last b = PyInt (s + int n)"
    by (subst b) (simp add: last_map)
  ultimately show ?thesis
    using n by simp
qed

lemma index_continuity_first:
  assumes "index_continuity s bs" and "bs \<noteq> []" and "hd bs \<noteq> []"
  shows "hd (hd bs) = PyInt s"
  using assms block_hd_last by (cases bs) auto

lemma index_continuity_gap:
  "index_continuity s bs \<Longrightarrow> \<forall>b \<in> set bs. b \<noteq> [] \<Longrightarrow> Suc k < length bs \<Longrightarrow>
     \<exists>n. last (bs ! k) = PyInt n \<and> hd (bs ! Suc k) = PyInt (n + 2)"
proof (induction bs arbitrary: s k)
  case Nil
  then show ?case by simp
next
  case (Cons b bs)
  have b: "b = map (\<lambda>j. PyInt (s + int j)) [0 ..< length b]" and ne: "b \<noteq> []"
    and rest: "index_continuity (s + int (length b) + 1) bs"
    using Cons.prems(1,2) by auto
  show ?case
  proof (cases k)
    case 0
    then have "bs \<noteq> []" and "hd bs \<noteq> []"
      using Cons.prems(2,3) by (cases bs; auto)+
    then have "hd (hd bs) = PyInt (s + int (length b) + 1)"
      using index_continuity_first [OF rest] by blast
    moreover have "(b # bs) ! Suc 0 = hd bs"
      using \<open>bs \<noteq> []\<close> by (cases bs) auto
    moreover have "last b = PyInt (s + int (length b) - 1)"
      using block_hd_last [OF b ne] by blast
    ultimately show ?thesis
      using 0 by simp
  next
    case (Suc k')
    then show ?thesis
      using Cons.IH [OF rest, of k'] Cons.prems(2,3) by simp
  qed
qed


text \<open>
  Claim C2. In standard mode with index-based scatter extraction, on a non-empty
  measurement list: when \<^verbatim>\<open>_get_x_value\<close> converts the x-axis field of every record
  that carries no plot series, \<^verbatim>\<open>prepare_data\<close> returns; the prepared groups are the
  groups in their order, each with one x value per record that carries no plot series;
  the x values are consecutive integers within a group, start at 0, and between two
  consecutive non-empty groups exactly one integer is left out: the first x value of the
  later group is the last x value of the earlier one plus 2. When the conversion raises
  on one such record, \<^verbatim>\<open>prepare_data\<close> raises and assigns no x value.
\<close>

theorem index_scatter_continuity:
  assumes "comparison_mode (config g) = NONE" and "x_axis_use_indices (config g)"
    and "graph_type (config g) = SCATTER" and "measurements (config g) \<noteq> []"
  shows "((\<forall>m \<in> set (measurements (config g)). is_plot m \<or> (\<exists>v. get_x_value m = Inr v)) \<longrightarrow>
          (\<exists>g' p. prepare_data g = Inr g' \<and> prepared_data g' = Some p \<and>
             map fst (groups p) = map fst (make_groups (config g)) \<and>
             map (\<lambda>(n, gd). length (x_data gd)) (groups p)
               = map (\<lambda>(n, ms). scalar_count ms) (make_groups (config g)) \<and>
             index_continuity 0 (map (\<lambda>(n, gd). x_data gd) (groups p)) \<and>
             (let blocks = filter (\<lambda>b. b \<noteq> []) (map (\<lambda>(n, gd). x_data gd) (groups p)) in
                (blocks \<noteq> [] \<longrightarrow> hd (hd blocks) = PyInt 0) \<and>
                (\<forall>k. Suc k < length blocks \<longrightarrow>
                   (\<exists>n. last (blocks ! k) = PyInt n \<and> hd (blocks ! Suc k) = PyInt (n + 2)))))) \<and>
         ((\<exists>m \<in> set (measurements (config g)). \<not> is_plot m \<and> (\<exists>e. get_x_value m = Inl e)) \<longrightarrow>
          (\<exists>e. prepare_data g = Inl e))"
proof (intro conjI impI)
  assume conv: "\<forall>m \<in> set (measurements (config g)). is_plot m \<or> (\<exists>v. get_x_value m = Inr v)"
  obtain g' p where r: "prepare_data g = Inr g'" "prepared_data g' = Some p"
    and k: "map fst (groups p) = map fst (make_groups (config g))"
    and l: "map (\<lambda>(n, gd). length (x_data gd)) (groups p)
              = map (\<lambda>(n, ms). scalar_count ms) (make_groups (config g))"
    and c: "index_continuity 0 (map (\<lambda>(n, gd). x_data gd) (groups p))"
    using prepare_data_standard [OF assms conv] by blast
  define blocks where "blocks = filter (\<lambda>b. b \<noteq> []) (map (\<lambda>(n, gd). x_data gd) (groups p))"
  have cb: "index_continuity 0 blocks"
    unfolding blocks_def using c by (rule index_continuity_filter)
  have ne: "\<forall>b \<in> set blocks. b \<noteq> []"
    by (simp add: blocks_def)
  have first: "blocks \<noteq> [] \<longrightarrow> hd (hd blocks) = PyInt 0"
    using index_continuity_first [OF cb] ne by (cases blocks) auto
  have gap: "\<forall>k. Suc k < length blocks \<longrightarrow>
      (\<exists>n. last (blocks ! k) = PyInt n \<and> hd (blocks ! Suc k) = PyInt (n + 2))"
    using index_continuity_gap [OF cb ne] by blast
  show "\<exists>g' p. prepare_data g = Inr g' \<and> prepared_data g' = Some p \<and>
             map fst (groups p) = map fst (make_groups (config g)) \<and>
             map (\<lambda>(n, gd). length (x_data gd)) (groups p)
               = map (\<lambda>(n, ms). scalar_count ms) (make_groups (config g)) \<and>
             index_continuity 0 (map (\<lambda>(n, gd). x_data gd) (groups p)) \<and>
             (let blocks = filter (\<lambda>b. b \<noteq> []) (map (\<lambda>(n, gd). x_data gd) (groups p)) in
                (blocks \<noteq> [] \<longrightarrow> hd (hd blocks) = PyInt 0) \<and>
                (\<forall>k. Suc k < length blocks \<longrightarrow>
                   (\<exists>n. last (blocks ! k) = PyInt n \<and> hd (blocks ! Suc k) = PyInt (n + 2))))"
    using r k l c first gap unfolding Let_def blocks_def by blast
next
  assume "\<exists>m \<in> set (measurements (config g)). \<not> is_plot m \<and> (\<exists>e. get_x_value m = Inl e)"
  then show "\<exists>e. prepare_data g = Inl e"
    using prepare_data_raises [OF assms(1)] by blast
qed

theorem index_scatter_continuity_witness:
  "(\<exists>g' p. prepare_data (new_generator example_config) = Inr g' \<and> prepared_data g' = Some p \<and>
      map fst (groups p) = [''A'', ''B''] \<and>
      map (\<lambda>(n, gd). x_data gd) (groups p) =
        [[PyInt 0, PyInt 1, PyInt 2], [PyInt 4, PyInt 5, PyInt 6, PyInt 7]] \<and>
      index_continuity 0 [[PyInt 0, PyInt 1, PyInt 2], [PyInt 4, PyInt 5, PyInt 6, PyInt 7]]) \<and>
   prepare_data (new_generator example_text_config) = Inl (ValueError NotAFloat)"
proof -
  have h: "comparison_mode (config (new_generator example_config)) = NONE"
    "x_axis_use_indices (config (new_generator example_config))"
    "graph_type (config (new_generator example_config)) = SCATTER"
    "measurements (config (new_generator example_config)) \<noteq> []"
    by (simp_all add: new_generator_def example_config_def default_config_def)
  have conv: "\<forall>m \<in> set (measurements (config (new_generator example_config))).
      is_plot m \<or> (\<exists>v. get_x_value m = Inr v)"
    by (simp add: new_generator_def example_config_def default_config_def get_x_value_def
        blank_measurement_def)
  obtain g' p where r: "prepare_data (new_generator example_config) = Inr g'"
      "prepared_data g' = Some p"
    and c: "index_continuity 0 (map (\<lambda>(n, gd). x_data gd) (groups p))"
    using index_scatter_continuity [OF h, THEN conjunct1, THEN mp, OF conv] by blast
  have "\<exists>g2 p2. prepare_data (new_generator example_config) = Inr g2 \<and>
      prepared_data g2 = Some p2 \<and> map fst (groups p2) = [''A'', ''B''] \<and>
      map (\<lambda>(n, gd). x_data gd) (groups p2) =
        [[PyInt 0, PyInt 1, PyInt 2], [PyInt 4, PyInt 5, PyInt 6, PyInt 7]]"
    by (simp add: example_config_def pipeline_eval upt_rec)
  then have e: "map fst (groups p) = [''A'', ''B'']"
    "map (\<lambda>(n, gd). x_data gd) (groups p) =
        [[PyInt 0, PyInt 1, PyInt 2], [PyInt 4, PyInt 5, PyInt 6, PyInt 7]]"
    using r by auto
  have ic: "index_continuity 0 [[PyInt 0, PyInt 1, PyInt 2], [PyInt 4, PyInt 5, PyInt 6, PyInt 7]]"
    using c unfolding e(2) .
  have h2: "comparison_mode (config (new_generator example_text_config)) = NONE"
    "x_axis_use_indices (config (new_generator example_text_config))"
    "graph_type (config (new_generator example_text_config)) = SCATTER"
    "measurements (config (new_generator example_text_config)) \<noteq> []"
    by (simp_all add: new_generator_def example_text_config_def example_config_def
        default_config_def)
  have bad: "\<exists>m \<in> set (measurements (config (new_generator example_text_config))).
      \<not> is_plot m \<and> (\<exists>e. get_x_value m = Inl e)"
    by (simp add: new_generator_def example_text_config_def example_config_def
        default_config_def get_x_value_def blank_measurement_def is_plot_def)
  obtain e' where e': "prepare_data (new_generator example_text_config) = Inl e'"
    using index_scatter_continuity [OF h2, THEN conjunct2, THEN mp, OF bad] by blast
  show ?thesis
  proof (intro exI conjI)
    show "prepare_data (new_generator example_config) = Inr g'"
      by (rule r(1))
    show "prepared_data g' = Some p"
      by (rule r(2))
    show "map fst (groups p) = [''A'', ''B'']"
      by (rule e(1))
    show "map (\<lambda>(n, gd). x_data gd) (groups p) =
        [[PyInt 0, PyInt 1, PyInt 2], [PyInt 4, PyInt 5, PyInt 6, PyInt 7]]"
      by (rule e(2))
    show "index_continuity 0 [[PyInt 0, PyInt 1, PyInt 2], [PyInt 4, PyInt 5, PyInt 6, PyInt 7]]"
      by (rule ic)
    show "prepare_data (new_generator example_text_config) = Inl (ValueError NotAFloat)"
      using e' by (simp add: example_text_config_def example_config_def pipeline_eval upt_rec)
  qed
qed

section \<open>Pairing by batch\<close>

lemma map_of_dict_append:
  "map_of (dict_append d k v) =
     (map_of d)(k \<mapsto> (case map_of d k of None \<Rightarrow> [v] | Some vs \<Rightarrow> vs @ [v]))"
  by (induction d k v rule: dict_append.induct) (auto simp: fun_eq_iff)

lemma grouping_distinct:
  "distinct (map fst d) \<Longrightarrow>
   distinct (map fst (foldl (\<lambda>d m. case key m of None \<Rightarrow> d | Some k \<Rightarrow> dict_append d k m) d ms))"
  by (induction ms arbitrary: d) (auto simp: keys_dict_append split: option.splits)

lemma grouping_lookup:
  "map_of (foldl (\<lambda>d m. case key m of None \<Rightarrow> d | Some k \<Rightarrow> dict_append d k m) d ms) k =
     (case map_of d k of
        None \<Rightarrow> if filter (\<lambda>m. key m = Some k) ms = [] then None
                else Some (filter (\<lambda>m. key m = Some k) ms)
      | Some vs \<Rightarrow> Some (vs @ filter (\<lambda>m. key m = Some k) ms))"
proof (induction ms arbitrary: d)
  case Nil
  then show ?case by (simp split: option.splits)
next
  case (Cons m ms)
  show ?case
    by (cases "key m") (auto simp: Cons.IH map_of_dict_append split: option.splits)
qed

lemma remdups_drop_later:
  "k \<in> set ys \<Longrightarrow> remdups (xs @ k # ys) = remdups (xs @ ys)"
  by (induction xs) auto

lemma grouping_keys:
  "distinct (map fst d) \<Longrightarrow>
   map fst (foldl (\<lambda>d m. case key m of None \<Rightarrow> d | Some k \<Rightarrow> dict_append d k m) d ms) =
     rev (remdups (rev (map fst d @ List.map_filter key ms)))"
proof (induction ms arbitrary: d)
  case Nil
  then show ?case by (simp add: List.map_filter_simps distinct_remdups_id)
next
  case (Cons m ms)
  show ?case
  proof (cases "key m")
    case None
    then show ?thesis
      using Cons.IH [OF Cons.prems] by (simp add: List.map_filter_simps)
  next
    case (Some k)
    have d: "distinct (map fst (dict_append d k m))"
      using Cons.prems by (simp add: keys_dict_append)
    show ?thesis
      using Cons.IH [OF d] Some
      by (simp add: List.map_filter_simps keys_dict_append remdups_drop_later)
  qed
qed

lemma sort_key_first:
  fixes f :: "'a \<Rightarrow> 'k::linorder"
  assumes "m \<in> set xs" and "\<forall>x \<in> set xs. f m \<le> f x" and "hd (filter (\<lambda>x. f x = f m) xs) = m"
  shows "sort_key f xs = m # sort_key f (remove1 m xs)"
  using assms
proof (induction xs)
  case Nil
  then show ?case by simp
next
  case (Cons x xs)
  show ?case
  proof (cases "x = m")
    case True
    have "\<forall>y \<in> set (sort_key f xs). f m \<le> f y"
      using Cons.prems(2) by simp
    then have "insort_key f m (sort_key f xs) = m # sort_key f xs"
      by (rule insort_is_Cons)
    then show ?thesis
      using True by simp
  next
    case False
    then have ne: "f x \<noteq> f m"
      using Cons.prems(3) by auto
    then have lt: "\<not> f x \<le> f m"
      using Cons.prems(2) by auto
    have m: "m \<in> set xs"
      using Cons.prems(1) False by simp
    have h: "hd (filter (\<lambda>x. f x = f m) xs) = m"
      using Cons.prems(3) ne by simp
    have ih: "sort_key f xs = m # sort_key f (remove1 m xs)"
      using Cons.IH [OF m _ h] Cons.prems(2) by simp
    have "sort_key f (x # xs) = insort_key f x (m # sort_key f (remove1 m xs))"
      using ih by simp
    also have "\<dots> = m # insort_key f x (sort_key f (remove1 m xs))"
      using lt by simp
    also have "\<dots> = m # sort_key f (remove1 m (x # xs))"
      using False by simp
    finally show ?thesis .
  qed
qed

lemma first_minimum_exists:
  fixes f :: "'a \<Rightarrow> 'k::linorder"
  assumes "xs \<noteq> []"
  shows "\<exists>m \<in> set xs. (\<forall>x \<in> set xs. f m \<le> f x) \<and> hd (filter (\<lambda>x. f x = f m) xs) = m"
proof -
  define k where "k = Min (f ` set xs)"
  have "k \<in> f ` set xs"
    unfolding k_def using assms by (intro Min_in) auto
  then have ne: "filter (\<lambda>x. f x = k) xs \<noteq> []"
    by (auto simp: filter_empty_conv)
  define m where "m = hd (filter (\<lambda>x. f x = k) xs)"
  have "m \<in> set (filter (\<lambda>x. f x = k) xs)"
    unfolding m_def using ne by (rule hd_in_set)
  then have m: "m \<in> set xs" "f m = k"
    by auto
  have le: "\<forall>x \<in> set xs. f m \<le> f x"
    using m(2) by (simp add: k_def)
  have "hd (filter (\<lambda>x. f x = f m) xs) = m"
    by (simp only: m(2)) (simp add: m_def)
  then show ?thesis
    using m(1) le by blast
qed

lemma remove1_distinct_keys:
  assumes "distinct (map fst xs)" and "e \<in> set xs"
  shows "remove1 e xs = filter (\<lambda>x. fst x \<noteq> fst e) xs"
  using assms
proof (induction xs)
  case Nil
  then show ?case by simp
next
  case (Cons x xs)
  show ?case
  proof (cases "x = e")
    case True
    have "\<forall>y \<in> set xs. fst y \<noteq> fst e"
      using Cons.prems(1) True by (auto simp: image_iff)
    then have "filter (\<lambda>x. fst x \<noteq> fst e) xs = xs"
      by (simp add: filter_id_conv)
    then show ?thesis
      using True by simp
  next
    case False
    then have "e \<in> set xs"
      using Cons.prems(2) by simp
    moreover have "fst x \<noteq> fst e"
      using Cons.prems(1) \<open>e \<in> set xs\<close> by (auto simp: image_iff)
    ultimately show ?thesis
      using Cons.IH Cons.prems(1) False by simp
  qed
qed

lemma sum_measurements_all:
  "\<forall>m \<in> set ms. measurement m \<noteq> None \<Longrightarrow>
   sum_measurements ms acc = Inr (acc + sum_list (valid_values (map measurement ms)))"
  by (induction ms arbitrary: acc)
     (auto simp: valid_values_def List.map_filter_simps)

lemma length_valid_all:
  "\<forall>m \<in> set ms. measurement m \<noteq> None \<Longrightarrow> length (valid_values (map measurement ms)) = length ms"
  by (induction ms) (auto simp: valid_values_def List.map_filter_simps)

lemma batch_average_all:
  assumes "ms \<noteq> []" and "\<forall>m \<in> set ms. measurement m \<noteq> None"
  shows "batch_average ms = Inr (np_mean (valid_values (map measurement ms)))"
  using assms
  by (simp add: batch_average_def sum_measurements_all np_mean_def length_valid_all)

lemma batch_bucket:
  assumes "(b, rs) \<in> set (batch_measurements bt ms)"
  shows "rs = filter (\<lambda>m. batch_key bt m = Some b) ms \<and> rs \<noteq> [] \<and>
         (\<forall>m \<in> set rs. measurement m \<noteq> None)"
proof -
  have d: "distinct (map fst (batch_measurements bt ms))"
    unfolding batch_measurements_def by (rule grouping_distinct) simp
  then have "map_of (batch_measurements bt ms) b = Some rs"
    using assms by simp
  then have r: "rs = filter (\<lambda>m. batch_key bt m = Some b) ms \<and> rs \<noteq> []"
    unfolding batch_measurements_def grouping_lookup by (auto split: if_splits)
  moreover have "\<forall>m \<in> set (filter (\<lambda>m. batch_key bt m = Some b) ms). measurement m \<noteq> None"
    by (auto simp: batch_key_def Let_def split: if_splits)
  ultimately show ?thesis
    by blast
qed

lemma batch_pairs_nth:
  assumes "i < length rs"
  shows "bp_our_measurement (batch_pairs a b avg rs ! i) = rs ! i \<and>
         bp_our_value (batch_pairs a b avg rs ! i) = measurement (rs ! i) \<and>
         bp_mfr_value (batch_pairs a b avg rs ! i) = avg \<and>
         batch_a (batch_pairs a b avg rs ! i) = a \<and> batch_b (batch_pairs a b avg rs ! i) = b"
  using assms by (simp add: batch_pairs_def)

lemma length_batch_pairs: "length (batch_pairs a b avg rs) = length rs"
  by (simp add: batch_pairs_def)

lemma neg_length_key:
  "(case e of (b, rs) \<Rightarrow> - int (length rs)) = - int (length (snd e))"
  by (cases e) simp

lemma pair_by_batch_two:
  assumes "2 \<le> length (batch_measurements bt ms)"
  shows "\<exists>a rs_a b rs_b.
     (a, rs_a) \<in> set (batch_measurements bt ms) \<and>
     (\<forall>e \<in> set (batch_measurements bt ms). length (snd e) \<le> length rs_a) \<and>
     hd (filter (\<lambda>e. length (snd e) = length rs_a) (batch_measurements bt ms)) = (a, rs_a) \<and>
     (b, rs_b) \<in> set (batch_measurements bt ms) \<and> b \<noteq> a \<and>
     (\<forall>e \<in> set (batch_measurements bt ms). fst e \<noteq> a \<longrightarrow> length (snd e) \<le> length rs_b) \<and>
     hd (filter (\<lambda>e. fst e \<noteq> a \<and> length (snd e) = length rs_b) (batch_measurements bt ms))
       = (b, rs_b) \<and>
     pair_by_batch ms bt =
       Inr (batch_pairs a b (np_mean (valid_values (map measurement rs_b))) rs_a)"
proof -
  define bm where "bm = batch_measurements bt ms"
  define f :: "string \<times> measurement_data list \<Rightarrow> int" where "f = (\<lambda>e. - int (length (snd e)))"
  have fk: "(\<lambda>(b, rs). - int (length rs)) = f"
    by (auto simp: f_def fun_eq_iff)
  have d: "distinct (map fst bm)"
    unfolding bm_def batch_measurements_def by (rule grouping_distinct) simp
  have len: "2 \<le> length bm"
    using assms by (simp add: bm_def)
  then have ne: "bm \<noteq> []"
    by auto
  obtain ea where ea: "ea \<in> set bm" "\<forall>x \<in> set bm. f ea \<le> f x"
      "hd (filter (\<lambda>x. f x = f ea) bm) = ea"
    using first_minimum_exists [OF ne, of f] by blast
  obtain a rs_a where a: "ea = (a, rs_a)"
    by (cases ea) auto
  define bm' where "bm' = filter (\<lambda>x. fst x \<noteq> a) bm"
  have rm: "remove1 ea bm = bm'"
    using remove1_distinct_keys [OF d ea(1)] by (simp add: bm'_def a)
  have s1: "sort_key f bm = ea # sort_key f bm'"
    using sort_key_first [OF ea] rm by simp
  have "length (remove1 ea bm) = length bm - 1"
    using ea(1) by (simp add: length_remove1)
  then have ne': "bm' \<noteq> []"
    using len rm by auto
  obtain eb where eb: "eb \<in> set bm'" "\<forall>x \<in> set bm'. f eb \<le> f x"
      "hd (filter (\<lambda>x. f x = f eb) bm') = eb"
    using first_minimum_exists [OF ne', of f] by blast
  obtain b rs_b where b: "eb = (b, rs_b)"
    by (cases eb) auto
  have s2: "sort_key f bm' = eb # sort_key f (remove1 eb bm')"
    using sort_key_first [OF eb] .
  have sorted: "sort_key (\<lambda>(b, rs). - int (length rs)) bm
                  = (a, rs_a) # (b, rs_b) # sort_key f (remove1 eb bm')"
    unfolding fk using s1 s2 a b by simp
  have ina: "(a, rs_a) \<in> set bm" and inb: "(b, rs_b) \<in> set bm" and ba: "b \<noteq> a"
    using ea(1) eb(1) a b by (auto simp: bm'_def)
  have bka: "rs_a \<noteq> [] \<and> (\<forall>m \<in> set rs_a. measurement m \<noteq> None)"
    and bkb: "rs_b \<noteq> [] \<and> (\<forall>m \<in> set rs_b. measurement m \<noteq> None)"
    using batch_bucket ina inb unfolding bm_def by blast+
  have ava: "batch_average rs_a = Inr (np_mean (valid_values (map measurement rs_a)))"
    and avb: "batch_average rs_b = Inr (np_mean (valid_values (map measurement rs_b)))"
    using batch_average_all bka bkb by blast+
  have res: "pair_by_batch ms bt =
      Inr (batch_pairs a b (np_mean (valid_values (map measurement rs_b))) rs_a)"
    using len sorted ava avb
    by (simp add: pair_by_batch_def Let_def bm_def [symmetric])
  have maxa: "\<forall>e \<in> set bm. length (snd e) \<le> length rs_a"
    using ea(2) by (simp add: f_def a)
  have hda: "hd (filter (\<lambda>e. length (snd e) = length rs_a) bm) = (a, rs_a)"
    using ea(3) by (simp add: f_def a)
  have maxb: "\<forall>e \<in> set bm. fst e \<noteq> a \<longrightarrow> length (snd e) \<le> length rs_b"
    using eb(2) by (auto simp: f_def b bm'_def)
  have hdb: "hd (filter (\<lambda>e. fst e \<noteq> a \<and> length (snd e) = length rs_b) bm) = (b, rs_b)"
    using eb(3) by (simp add: f_def b bm'_def)
  show ?thesis
    using ina maxa hda inb ba maxb hdb res unfolding bm_def by blast
qed

lemma pair_by_batch_few:
  assumes "length (batch_measurements bt ms) < 2"
  shows "pair_by_batch ms bt = Inr []"
  using assms by (simp add: pair_by_batch_def Let_def)

lemma batch_measurements_keys:
  "map fst (batch_measurements bt ms) = rev (remdups (rev (List.map_filter (batch_key bt) ms)))"
  unfolding batch_measurements_def using grouping_keys [of "[]" "batch_key bt" ms] by simp


text \<open>
  Claim C7. \<^verbatim>\<open>_pair_by_batch\<close> groups the records that have a batch and a
  measurement by batch, the batches in the order of their first record. With fewer than
  two batches it returns the empty list. Otherwise it returns, never raising: batch A
  has the most records and is the first batch with that many; batch B has the most
  records among the other batches and is the first of them with that many; the result
  has one paired point per record of batch A, in order, whose comparison value is the
  mean of the values of batch B.
\<close>

theorem pair_by_batch_selects:
  "map fst (batch_measurements bt ms) = rev (remdups (rev (List.map_filter (batch_key bt) ms))) \<and>
   (\<forall>e \<in> set (batch_measurements bt ms).
      snd e = filter (\<lambda>m. batch_key bt m = Some (fst e)) ms) \<and>
   (length (batch_measurements bt ms) < 2 \<longrightarrow> pair_by_batch ms bt = Inr []) \<and>
   (2 \<le> length (batch_measurements bt ms) \<longrightarrow>
      (\<exists>a rs_a b rs_b ps.
         (a, rs_a) \<in> set (batch_measurements bt ms) \<and>
         (\<forall>e \<in> set (batch_measurements bt ms). length (snd e) \<le> length rs_a) \<and>
         hd (filter (\<lambda>e. length (snd e) = length rs_a) (batch_measurements bt ms)) = (a, rs_a) \<and>
         (b, rs_b) \<in> set (batch_measurements bt ms) \<and> b \<noteq> a \<and>
         (\<forall>e \<in> set (batch_measurements bt ms). fst e \<noteq> a \<longrightarrow> length (snd e) \<le> length rs_b) \<and>
         hd (filter (\<lambda>e. fst e \<noteq> a \<and> length (snd e) = length rs_b) (batch_measurements bt ms))
           = (b, rs_b) \<and>
         pair_by_batch ms bt = Inr ps \<and> length ps = length rs_a \<and>
         (\<forall>i < length rs_a.
            bp_our_measurement (ps ! i) = rs_a ! i \<and>
            bp_our_value (ps ! i) = measurement (rs_a ! i) \<and>
            bp_mfr_value (ps ! i) = np_mean (valid_values (map measurement rs_b)) \<and>
            batch_a (ps ! i) = a \<and> batch_b (ps ! i) = b)))"
proof (intro conjI impI)
  show "map fst (batch_measurements bt ms) = rev (remdups (rev (List.map_filter (batch_key bt) ms)))"
    by (rule batch_measurements_keys)
  show "\<forall>e \<in> set (batch_measurements bt ms).
      snd e = filter (\<lambda>m. batch_key bt m = Some (fst e)) ms"
    using batch_bucket [of _ _ bt ms] by auto
  show "pair_by_batch ms bt = Inr []" if "length (batch_measurements bt ms) < 2"
    using that by (rule pair_by_batch_few)
  show "\<exists>a rs_a b rs_b ps.
         (a, rs_a) \<in> set (batch_measurements bt ms) \<and>
         (\<forall>e \<in> set (batch_measurements bt ms). length (snd e) \<le> length rs_a) \<and>
         hd (filter (\<lambda>e. length (snd e) = length rs_a) (batch_measurements bt ms)) = (a, rs_a) \<and>
         (b, rs_b) \<in> set (batch_measurements bt ms) \<and> b \<noteq> a \<and>
         (\<forall>e \<in> set (batch_measurements bt ms). fst e \<noteq> a \<longrightarrow> length (snd e) \<le> length rs_b) \<and>
         hd (filter (\<lambda>e. fst e \<noteq> a \<and> length (snd e) = length rs_b) (batch_measurements bt ms))
           = (b, rs_b) \<and>
         pair_by_batch ms bt = Inr ps \<and> length ps = length rs_a \<and>
         (\<forall>i < length rs_a.
            bp_our_measurement (ps ! i) = rs_a ! i \<and>
            bp_our_value (ps ! i) = measurement (rs_a ! i) \<and>
            bp_mfr_value (ps ! i) = np_mean (valid_values (map measurement rs_b)) \<and>
            batch_a (ps ! i) = a \<and> batch_b (ps ! i) = b)"
    if two: "2 \<le> length (batch_measurements bt ms)"
  proof -
    obtain a rs_a b rs_b where
      f: "(a, rs_a) \<in> set (batch_measurements bt ms)"
         "\<forall>e \<in> set (batch_measurements bt ms). length (snd e) \<le> length rs_a"
         "hd (filter (\<lambda>e. length (snd e) = length rs_a) (batch_measurements bt ms)) = (a, rs_a)"
         "(b, rs_b) \<in> set (batch_measurements bt ms)" "b \<noteq> a"
         "\<forall>e \<in> set (batch_measurements bt ms). fst e \<noteq> a \<longrightarrow> length (snd e) \<le> length rs_b"
         "hd (filter (\<lambda>e. fst e \<noteq> a \<and> length (snd e) = length rs_b) (batch_measurements bt ms))
            = (b, rs_b)"
      and r: "pair_by_batch ms bt =
         Inr (batch_pairs a b (np_mean (valid_values (map measurement rs_b))) rs_a)"
      using pair_by_batch_two [OF two] by blast
    show ?thesis
      using f r length_batch_pairs batch_pairs_nth by blast
  qed
qed

lemmas batch_eval =
  batch_measurements_def batch_key_def get_pmt_batch_def get_pia_batch_def truthy_def
  batch_record_def blank_measurement_def example_batches_def Let_def

theorem pair_by_batch_selects_witness:
  "\<exists>ps. pair_by_batch example_batches ''pmt'' = Inr ps \<and> length ps = 7 \<and>
     (\<forall>i < 7. batch_a (ps ! i) = ''B2'' \<and> batch_b (ps ! i) = ''B1'' \<and>
        bp_mfr_value (ps ! i) = 20) \<and>
     map (\<lambda>p. spec_id (bp_our_measurement p)) ps = [2, 4, 6, 7, 9, 10, 11]"
proof -
  let ?bm = "batch_measurements ''pmt'' example_batches"
  have bm: "?bm =
     [(''B1'', [batch_record 1 10 ''B1'', batch_record 5 20 ''B1'', batch_record 8 30 ''B1'']),
      (''B2'', [batch_record 2 1 ''B2'', batch_record 4 2 ''B2'', batch_record 6 3 ''B2'',
               batch_record 7 4 ''B2'', batch_record 9 5 ''B2'', batch_record 10 6 ''B2'',
               batch_record 11 7 ''B2'']),
      (''B3'', [batch_record 3 5 ''B3''])]"
    by (simp add: batch_eval)
  have two: "2 \<le> length ?bm"
    by (simp add: bm)
  obtain a rs_a b rs_b ps where
    ia: "(a, rs_a) \<in> set ?bm" and ma: "\<forall>e \<in> set ?bm. length (snd e) \<le> length rs_a"
    and ib: "(b, rs_b) \<in> set ?bm" and ba: "b \<noteq> a"
    and mb: "\<forall>e \<in> set ?bm. fst e \<noteq> a \<longrightarrow> length (snd e) \<le> length rs_b"
    and r: "pair_by_batch example_batches ''pmt'' = Inr ps" and l: "length ps = length rs_a"
    and f: "\<forall>i < length rs_a.
            bp_our_measurement (ps ! i) = rs_a ! i \<and>
            bp_our_value (ps ! i) = measurement (rs_a ! i) \<and>
            bp_mfr_value (ps ! i) = np_mean (valid_values (map measurement rs_b)) \<and>
            batch_a (ps ! i) = a \<and> batch_b (ps ! i) = b"
    using pair_by_batch_selects [of "''pmt''" example_batches] two by blast
  have a: "a = ''B2'' \<and> rs_a = [batch_record 2 1 ''B2'', batch_record 4 2 ''B2'',
      batch_record 6 3 ''B2'', batch_record 7 4 ''B2'', batch_record 9 5 ''B2'',
      batch_record 10 6 ''B2'', batch_record 11 7 ''B2'']"
    using ia ma unfolding bm by auto
  have b: "b = ''B1'' \<and> rs_b = [batch_record 1 10 ''B1'', batch_record 5 20 ''B1'',
      batch_record 8 30 ''B1'']"
    using ib ba mb a unfolding bm by auto
  have avg: "np_mean (valid_values (map measurement rs_b)) = 20"
    by (simp add: b np_mean_def valid_values_def List.map_filter_simps batch_record_def
          blank_measurement_def)
  have l7: "length ps = 7"
    using l a by simp
  have fields: "\<forall>i < 7. batch_a (ps ! i) = ''B2'' \<and> batch_b (ps ! i) = ''B1'' \<and>
        bp_mfr_value (ps ! i) = 20"
    using f a b avg by simp
  have "map bp_our_measurement ps = rs_a"
    using f l by (intro nth_equalityI) simp_all
  then have "map spec_id (map bp_our_measurement ps) = map spec_id rs_a"
    by simp
  then have "map (\<lambda>p. spec_id (bp_our_measurement p)) ps = map spec_id rs_a"
    by (simp add: comp_def)
  then have ids: "map (\<lambda>p. spec_id (bp_our_measurement p)) ps = [2, 4, 6, 7, 9, 10, 11]"
    by (simp add: a batch_record_def blank_measurement_def)
  show ?thesis
  proof (intro exI conjI)
    show "pair_by_batch example_batches ''pmt'' = Inr ps" by (rule r)
    show "length ps = 7" by (rule l7)
    show "\<forall>i < 7. batch_a (ps ! i) = ''B2'' \<and> batch_b (ps ! i) = ''B1'' \<and>
        bp_mfr_value (ps ! i) = 20" by (rule fields)
    show "map (\<lambda>p. spec_id (bp_our_measurement p)) ps = [2, 4, 6, 7, 9, 10, 11]" by (rule ids)
  qed
qed


section \<open>Pairing by fixture\<close>

































end
